theory Spec2Isabelle
  imports Main "HOL-Library.AList" "HOL-Library.Word"
begin

section \<open>The admin console: form-to-catalog reconciliation\<close>

text \<open>
  A shallow embedding of the admin console's component \<open>App\<close> and of the catalog client
  it calls. The React state of \<open>App\<close> is a record; every event handler is a function from
  the state before the event to the state after it, paired with the list of client calls
  the handler issued, in order. The answers of the remote store and of the image host are
  read from an environment record, one answer per client function. A handler runs to its
  end before the next event is handled. Strings are sequences of UTF-16 code units, as
  \<open>trim\<close> and \<open>parseInt\<close> read them; the keys of a payload are names of the source.
\<close>

subsection \<open>JavaScript values\<close>

text \<open>
  A string is its sequence of UTF-16 code units. \<open>js\<close> reads a literal of the source,
  which is ASCII, as such a string.
\<close>

type_synonym jsstring = "16 word list"

definition js :: "string \<Rightarrow> jsstring" where
  "js s = map of_char s"

text \<open>
  The numbers \<open>parseInt\<close> yields: \<open>NaN\<close>, the two infinities, the negative zero, or an
  integer that a double holds exactly.
\<close>

datatype jsnum = JNaN | JInfinity | JMinusInfinity | JMinusZero | JInt int

datatype jsval = JStr jsstring | JNum jsnum

text \<open>
  The truthiness of a property read: \<open>undefined\<close>, the empty string, both zeros and
  \<open>NaN\<close> are falsy.
\<close>

fun truthy :: "jsval option \<Rightarrow> bool" where
  "truthy None = False"
| "truthy (Some (JStr s)) = (s \<noteq> [])"
| "truthy (Some (JNum JNaN)) = False"
| "truthy (Some (JNum JMinusZero)) = False"
| "truthy (Some (JNum (JInt n))) = (n \<noteq> 0)"
| "truthy (Some (JNum other)) = True"

text \<open>\<open>a || d\<close> for an optional string \<open>a\<close>: \<open>d\<close> when \<open>a\<close> is \<open>undefined\<close> or empty.\<close>

fun orElse :: "jsstring option \<Rightarrow> jsstring \<Rightarrow> jsstring" where
  "orElse None d = d"
| "orElse (Some a) d = (if a = [] then d else a)"

text \<open>
  The code units \<open>trim\<close> strips and \<open>parseInt\<close> skips: the white space of ECMAScript
  (TAB, VT, FF, SP, NBSP, ZWNBSP and the space separators of Unicode) and its line
  terminators (LF, CR, LS, PS).
\<close>

definition is_ws :: "16 word \<Rightarrow> bool" where
  "is_ws c =
     (c \<in> {9, 10, 11, 12, 13, 32, 160, 5760, 8232, 8233, 8239, 8287, 12288, 65279}
      \<or> (8192 \<le> c \<and> c \<le> 8202))"

definition trim :: "jsstring \<Rightarrow> jsstring" where
  "trim s = rev (dropWhile is_ws (rev (dropWhile is_ws s)))"

definition is_digit :: "16 word \<Rightarrow> bool" where
  "is_digit c = (48 \<le> c \<and> c \<le> 57)"

definition digits_value :: "jsstring \<Rightarrow> int" where
  "digits_value z = foldl (\<lambda>a c. 10 * a + (uint c - 48)) 0 z"

text \<open>The number of binary digits of a positive integer.\<close>

function bit_length :: "int \<Rightarrow> nat" where
  "bit_length n = (if n \<le> 0 then 0 else Suc (bit_length (n div 2)))"
  by pat_completeness auto
termination
  by (relation "measure nat") auto

declare bit_length.simps [simp del]

text \<open>
  The double nearest to an integer that is not negative, ties to the even significand of
  53 bits; \<open>None\<close> when it is beyond the largest double.
\<close>

definition to_double :: "int \<Rightarrow> int option" where
  "to_double m =
     (if bit_length m \<le> 53 then Some m
      else
        (let e = bit_length m - 53;
             q = m div 2 ^ e;
             r = m mod 2 ^ e;
             half = 2 ^ (e - 1);
             q' = (if half < r \<or> (r = half \<and> odd q) then q + 1 else q)
         in if 1024 < bit_length (q' * 2 ^ e) then None else Some (q' * 2 ^ e)))"

text \<open>
  \<open>parseInt(s, 10)\<close>: leading white space is skipped, one sign is read, then the longest
  run of decimal digits; with no digit the result is \<open>NaN\<close>, otherwise the double nearest
  to the signed value of the digits. (ECMAScript lets an implementation read the digits
  after the twentieth as zeros; the value of all digits is taken here.)
\<close>

definition parseInt :: "jsstring \<Rightarrow> jsnum" where
  "parseInt s =
     (let t = dropWhile is_ws s;
          neg = (t \<noteq> [] \<and> hd t = 45);
          u = (if t \<noteq> [] \<and> (hd t = 45 \<or> hd t = 43) then tl t else t);
          z = takeWhile is_digit u
      in if z = [] then JNaN
         else (case to_double (digits_value z) of
                 None \<Rightarrow> if neg then JMinusInfinity else JInfinity
               | Some r \<Rightarrow>
                   if neg then (if r = 0 then JMinusZero else JInt (- r))
                   else JInt r))"

text \<open>
  A number of the store is known by what \<open>String\<close> writes for it, which is all that the
  console reads of it.
\<close>

datatype number = Number jsstring

fun String_of :: "number \<Rightarrow> jsstring" where
  "String_of (Number written) = written"

subsection \<open>Data model\<close>

text \<open>\<open>ApiProduct\<close> of the catalog client; an optional field is an \<open>option\<close>.\<close>

record ApiProduct =
  p_id :: jsstring
  p_title :: jsstring
  p_description :: "jsstring option"
  p_price :: "jsstring option"
  p_originalPrice :: "jsstring option"
  p_offerPrice :: "jsstring option"
  p_category :: "jsstring option"
  p_subcategory :: "jsstring option"
  p_imageUrl :: "jsstring option"
  p_image :: "jsstring option"
  p_badge :: "jsstring option"
  p_availableQuantity :: "number option"

record FormState =
  title :: jsstring
  description :: jsstring
  price :: jsstring
  originalPrice :: jsstring
  offerPrice :: jsstring
  category :: jsstring
  subcategory :: jsstring
  badge :: jsstring
  imageUrl :: jsstring
  availableQuantity :: jsstring

definition initialForm :: FormState where
  "initialForm =
     \<lparr>title = [], description = [], price = [], originalPrice = [], offerPrice = [],
      category = js ''accessories'', subcategory = [], badge = [], imageUrl = [],
      availableQuantity = []\<rparr>"

text \<open>A selected file is known by its name.\<close>

type_synonym File = jsstring

text \<open>
  The object handed to the client: its own properties in insertion order, as
  \<open>JSON.stringify\<close> writes them.
\<close>

type_synonym payload = "(string \<times> jsval) list"

record snapshot =
  accessories :: "ApiProduct list"
  gifts :: "ApiProduct list"

record State =
  authed :: bool
  password :: jsstring
  form :: FormState
  imageFile :: "File option"
  uploadingImage :: bool
  products :: snapshot
  loading :: bool
  error :: "jsstring option"
  editingProduct :: "ApiProduct option"
  stored_authed :: bool

text \<open>
  The state of \<open>App\<close> when it is mounted: \<open>authed\<close> is read from the stored marker, the
  draft is the initial form and the snapshot holds two empty lists.
\<close>

definition initialState :: "bool \<Rightarrow> State" where
  "initialState marker =
     \<lparr>authed = marker, password = [], form = initialForm, imageFile = None,
      uploadingImage = False, products = \<lparr>accessories = [], gifts = []\<rparr>, loading = False,
      error = None, editingProduct = None, stored_authed = marker\<rparr>"

subsection \<open>The catalog client\<close>

text \<open>The calls a handler issues, named after the client's functions, with their arguments.\<close>

datatype call =
    FetchAllProducts
  | CreateProduct payload
  | UpdateProduct jsstring jsstring payload
  | DeleteProduct jsstring "jsstring option"
  | UploadImage File

text \<open>
  What each client function does when called: it throws an \<open>Error\<close> with a message
  (\<open>Inl\<close>) or returns its value (\<open>Inr\<close>). \<open>ADMIN_PASSWORD\<close> and \<open>API_BASE\<close> are the two
  configuration inputs.
\<close>

record env =
  fetchAllProducts :: "jsstring + snapshot"
  createProduct :: "payload \<Rightarrow> jsstring + ApiProduct"
  updateProduct :: "jsstring \<Rightarrow> jsstring \<Rightarrow> payload \<Rightarrow> jsstring + ApiProduct"
  deleteProduct :: "jsstring \<Rightarrow> jsstring option \<Rightarrow> jsstring + ApiProduct"
  uploadImage :: "File \<Rightarrow> jsstring + jsstring"
  ADMIN_PASSWORD :: jsstring
  API_BASE :: jsstring

datatype http_method = GET | POST | PUT | DELETE

text \<open>The request line each client function builds for \<open>fetch\<close>.\<close>

fun request_line :: "jsstring \<Rightarrow> call \<Rightarrow> http_method \<times> jsstring" where
  "request_line base FetchAllProducts = (GET, base @ js ''/products'')"
| "request_line base (CreateProduct product) = (POST, base @ js ''/products'')"
| "request_line base (UpdateProduct i c product) =
     (PUT, base @ js ''/products/'' @ i @ js ''?category='' @ c)"
| "request_line base (DeleteProduct i c) =
     (DELETE, base @ js ''/products/'' @ i @
        (case c of None \<Rightarrow> [] | Some c' \<Rightarrow> if c' = [] then [] else js ''?category='' @ c'))"
| "request_line base (UploadImage f) = (POST, base @ js ''/upload'')"

text \<open>The message of the error a call throws in this environment; \<open>None\<close> when it returns.\<close>

fun thrown :: "env \<Rightarrow> call \<Rightarrow> jsstring option" where
  "thrown w FetchAllProducts =
     (case fetchAllProducts w of Inl message \<Rightarrow> Some message | Inr data \<Rightarrow> None)"
| "thrown w (CreateProduct product) =
     (case createProduct w product of Inl message \<Rightarrow> Some message | Inr created \<Rightarrow> None)"
| "thrown w (UpdateProduct i c product) =
     (case updateProduct w i c product of Inl message \<Rightarrow> Some message | Inr updated \<Rightarrow> None)"
| "thrown w (DeleteProduct i c) =
     (case deleteProduct w i c of Inl message \<Rightarrow> Some message | Inr deleted \<Rightarrow> None)"
| "thrown w (UploadImage f) =
     (case uploadImage w f of Inl message \<Rightarrow> Some message | Inr url \<Rightarrow> None)"

definition call_ok :: "env \<Rightarrow> call \<Rightarrow> bool" where
  "call_ok w c = (thrown w c = None)"

fun is_mutation :: "call \<Rightarrow> bool" where
  "is_mutation (CreateProduct product) = True"
| "is_mutation (UpdateProduct i c product) = True"
| "is_mutation (DeleteProduct i c) = True"
| "is_mutation other = False"

fun is_submission :: "call \<Rightarrow> bool" where
  "is_submission (CreateProduct product) = True"
| "is_submission (UpdateProduct i c product) = True"
| "is_submission other = False"

text \<open>The payloads handed to \<open>createProduct\<close> and \<open>updateProduct\<close> among the calls issued.\<close>

fun payload_of :: "call \<Rightarrow> payload option" where
  "payload_of (CreateProduct product) = Some product"
| "payload_of (UpdateProduct i c product) = Some product"
| "payload_of other = None"

fun payloads :: "call list \<Rightarrow> payload list" where
  "payloads [] = []"
| "payloads (c # cs) =
     (case payload_of c of Some product \<Rightarrow> product # payloads cs | None \<Rightarrow> payloads cs)"

subsection \<open>Loading the catalog\<close>

text \<open>\<open>load\<close>: the snapshot is assigned only from the answer of \<open>fetchAllProducts\<close>.\<close>

definition load :: "env \<Rightarrow> State \<Rightarrow> State \<times> call list" where
  "load w s =
     (case fetchAllProducts w of
        Inr data \<Rightarrow> (s\<lparr>error := None, products := data\<rparr>, [FetchAllProducts])
      | Inl err \<Rightarrow> (s\<lparr>error := Some (js ''Failed to load products.'')\<rparr>, [FetchAllProducts]))"

subsection \<open>Submitting the draft\<close>

text \<open>\<open>{...form, imageUrl}\<close>: the form's ten properties, \<open>imageUrl\<close> rebound in place.\<close>

definition spread :: "FormState \<Rightarrow> payload" where
  "spread f =
     [(''title'', JStr (title f)), (''description'', JStr (description f)),
      (''price'', JStr (price f)), (''originalPrice'', JStr (originalPrice f)),
      (''offerPrice'', JStr (offerPrice f)), (''category'', JStr (category f)),
      (''subcategory'', JStr (subcategory f)), (''badge'', JStr (badge f)),
      (''imageUrl'', JStr (imageUrl f)), (''availableQuantity'', JStr (availableQuantity f))]"

text \<open>\<open>if (!productData[k]) delete productData[k]\<close>.\<close>

definition delete_if_falsy :: "string \<Rightarrow> payload \<Rightarrow> payload" where
  "delete_if_falsy k productData =
     (if \<not> truthy (map_of productData k) then AList.delete k productData else productData)"

text \<open>
  \<open>availableQuantity\<close> is rebound to the parsed number for an accessory with a quantity
  entered, and deleted otherwise.
\<close>

definition set_quantity :: "FormState \<Rightarrow> payload \<Rightarrow> payload" where
  "set_quantity f productData =
     (if category f = js ''accessories'' \<and> availableQuantity f \<noteq> []
      then AList.update ''availableQuantity''
             (JNum (parseInt (availableQuantity f))) productData
      else AList.delete ''availableQuantity'' productData)"

text \<open>
  \<open>if (!productData.price && productData.originalPrice)
     productData.price = productData.originalPrice\<close>.
\<close>

definition backfill_price :: "payload \<Rightarrow> payload" where
  "backfill_price productData =
     (case map_of productData ''originalPrice'' of
        Some v \<Rightarrow>
          if \<not> truthy (map_of productData ''price'') \<and> truthy (Some v)
          then AList.update ''price'' v productData else productData
      | None \<Rightarrow> productData)"

text \<open>The payload of \<open>handleSubmit\<close>, from the form and the resolved image reference.\<close>

definition buildPayload :: "FormState \<Rightarrow> jsstring \<Rightarrow> payload" where
  "buildPayload f imageUrl' =
     (let pd0 = AList.update ''imageUrl'' (JStr imageUrl') (spread f);
          pd1 = set_quantity f pd0;
          pd2 = delete_if_falsy ''originalPrice'' pd1;
          pd3 = delete_if_falsy ''offerPrice'' pd2;
          pd4 = delete_if_falsy ''subcategory'' pd3;
          pd5 = delete_if_falsy ''badge'' pd4
      in backfill_price pd5)"

text \<open>\<open>editingProduct.imageUrl || editingProduct.image || ''\<close>.\<close>

definition existing_image :: "ApiProduct \<Rightarrow> jsstring" where
  "existing_image p = orElse (p_imageUrl p) (orElse (p_image p) [])"

text \<open>The outer \<open>catch\<close> and \<open>finally\<close> of \<open>handleSubmit\<close>.\<close>

definition submit_failed :: "State \<Rightarrow> call list \<Rightarrow> jsstring \<Rightarrow> State \<times> call list" where
  "submit_failed s cs msg =
     (s\<lparr>error := Some (if msg = [] then js ''Failed to add product.'' else msg),
        loading := False\<rparr>, cs)"

text \<open>
  \<open>let imageUrl = form.imageUrl\<close> and the upload when a file is selected; \<open>Inl\<close> carries
  the message of the error thrown. \<open>uploadingImage\<close> is set for the time of the upload
  and cleared in the \<open>finally\<close>.
\<close>

definition upload_selected :: "env \<Rightarrow> State \<Rightarrow> (jsstring + jsstring) \<times> State \<times> call list" where
  "upload_selected w s =
     (case imageFile s of
        Some f \<Rightarrow>
          (case uploadImage w f of
             Inl message \<Rightarrow>
               (Inl (js ''Image upload failed: '' @ message),
                s\<lparr>uploadingImage := False\<rparr>, [UploadImage f])
           | Inr url \<Rightarrow> (Inr url, s\<lparr>uploadingImage := False\<rparr>, [UploadImage f]))
      | None \<Rightarrow> (Inr (imageUrl (form s)), s, []))"

text \<open>
  The two checks after the upload: a creation without image throws, an edit without a new
  image falls back to the edited product's image.
\<close>

definition retain_image :: "State \<Rightarrow> jsstring \<Rightarrow> jsstring + jsstring" where
  "retain_image s imageUrl' =
     (if imageUrl' = [] \<and> editingProduct s = None
      then Inl (js ''Please provide an image (upload file or enter URL)'')
      else (case editingProduct s of
              Some p \<Rightarrow>
                if imageUrl' = [] \<and> imageFile s = None then Inr (existing_image p)
                else Inr imageUrl'
            | None \<Rightarrow> Inr imageUrl'))"

definition resolve_image :: "env \<Rightarrow> State \<Rightarrow> (jsstring + jsstring) \<times> State \<times> call list" where
  "resolve_image w s =
     (case upload_selected w s of
        (Inl message, s1, cs) \<Rightarrow> (Inl message, s1, cs)
      | (Inr imageUrl', s1, cs) \<Rightarrow> (retain_image s imageUrl', s1, cs))"

text \<open>
  Mode dispatch: an update of the edited product under the form's category, or a creation.
\<close>

definition submission :: "State \<Rightarrow> payload \<Rightarrow> call" where
  "submission s productData =
     (case editingProduct s of
        Some p \<Rightarrow> UpdateProduct (p_id p) (category (form s)) productData
      | None \<Rightarrow> CreateProduct productData)"

definition handleSubmit :: "env \<Rightarrow> State \<Rightarrow> State \<times> call list" where
  "handleSubmit w s0 =
     (let s = s0\<lparr>loading := True, error := None\<rparr>
      in if trim (title (form s)) = [] then submit_failed s [] (js ''Title required'')
         else if category (form s) = [] then submit_failed s [] (js ''Category required'')
         else
           (case resolve_image w s of
              (Inl message, s1, cs) \<Rightarrow> submit_failed s1 cs message
            | (Inr imageUrl', s1, cs) \<Rightarrow>
                (let c = submission s (buildPayload (form s) imageUrl')
                 in case thrown w c of
                      Some message \<Rightarrow> submit_failed s1 (cs @ [c]) message
                    | None \<Rightarrow>
                        (let (s2, cs2) =
                               load w (s1\<lparr>form := initialForm, editingProduct := None,
                                          imageFile := None\<rparr>)
                         in (s2\<lparr>loading := False\<rparr>, cs @ [c] @ cs2)))))"

subsection \<open>The other handlers\<close>

text \<open>
  \<open>handleLogin\<close>; the effect that depends on \<open>authed\<close> runs \<open>load\<close> when the flag has
  changed to true.
\<close>

definition handleLogin :: "env \<Rightarrow> State \<Rightarrow> State \<times> call list" where
  "handleLogin w s =
     (if password s = ADMIN_PASSWORD w
      then (if authed s then (s\<lparr>stored_authed := True\<rparr>, [])
            else load w (s\<lparr>stored_authed := True, authed := True\<rparr>))
      else (s\<lparr>error := Some (js ''Invalid password'')\<rparr>, []))"

text \<open>The effect at mount: \<open>authed\<close> starts from the stored marker.\<close>

definition mount :: "env \<Rightarrow> State \<Rightarrow> State \<times> call list" where
  "mount w s = (if authed s then load w s else (s, []))"

text \<open>The names of the inputs bound to \<open>handleChange\<close>.\<close>

datatype field =
    FTitle | FOriginalPrice | FOfferPrice | FDescription | FCategory | FSubcategory
  | FBadge | FAvailableQuantity | FImageUrl

text \<open>\<open>{...prev, [name]: value}\<close>.\<close>

fun set_field :: "field \<Rightarrow> jsstring \<Rightarrow> FormState \<Rightarrow> FormState" where
  "set_field FTitle v prev = prev\<lparr>title := v\<rparr>"
| "set_field FOriginalPrice v prev = prev\<lparr>originalPrice := v\<rparr>"
| "set_field FOfferPrice v prev = prev\<lparr>offerPrice := v\<rparr>"
| "set_field FDescription v prev = prev\<lparr>description := v\<rparr>"
| "set_field FCategory v prev = prev\<lparr>category := v\<rparr>"
| "set_field FSubcategory v prev = prev\<lparr>subcategory := v\<rparr>"
| "set_field FBadge v prev = prev\<lparr>badge := v\<rparr>"
| "set_field FAvailableQuantity v prev = prev\<lparr>availableQuantity := v\<rparr>"
| "set_field FImageUrl v prev = prev\<lparr>imageUrl := v\<rparr>"

definition handleChange :: "field \<Rightarrow> jsstring \<Rightarrow> State \<Rightarrow> State" where
  "handleChange name v s = s\<lparr>form := set_field name v (form s)\<rparr>"

text \<open>The \<open>onChange\<close> of the category select.\<close>

definition category_onChange :: "jsstring \<Rightarrow> State \<Rightarrow> State" where
  "category_onChange v s =
     (let s1 = handleChange FCategory v s
      in s1\<lparr>form := (form s1)\<lparr>subcategory := []\<rparr>\<rparr>)"

text \<open>The \<open>onChange\<close> of the file input; \<open>None\<close> when the chooser yields no file.\<close>

definition file_onChange :: "File option \<Rightarrow> State \<Rightarrow> State" where
  "file_onChange chosen s =
     (case chosen of
        Some f \<Rightarrow> s\<lparr>imageFile := Some f, form := (form s)\<lparr>imageUrl := []\<rparr>\<rparr>
      | None \<Rightarrow> s)"

text \<open>The \<open>onChange\<close> of the manual URL input.\<close>

definition imageUrl_onChange :: "jsstring \<Rightarrow> State \<Rightarrow> State" where
  "imageUrl_onChange v s =
     (let s1 = handleChange FImageUrl v s
      in if v \<noteq> [] then s1\<lparr>imageFile := None\<rparr> else s1)"

definition handleEdit :: "ApiProduct \<Rightarrow> State \<Rightarrow> State" where
  "handleEdit product s =
     s\<lparr>editingProduct := Some product,
       form :=
         \<lparr>title = orElse (Some (p_title product)) [],
          description = orElse (p_description product) [],
          price = orElse (p_price product) [],
          originalPrice = orElse (p_originalPrice product) [],
          offerPrice = orElse (p_offerPrice product) [],
          category = orElse (p_category product) (js ''accessories''),
          subcategory = orElse (p_subcategory product) [],
          badge = orElse (p_badge product) [],
          imageUrl = orElse (p_imageUrl product) (orElse (p_image product) []),
          availableQuantity =
            (case p_availableQuantity product of Some n \<Rightarrow> String_of n | None \<Rightarrow> [])\<rparr>,
       imageFile := None\<rparr>"

definition handleCancelEdit :: "State \<Rightarrow> State" where
  "handleCancelEdit s = s\<lparr>editingProduct := None, form := initialForm, imageFile := None\<rparr>"

definition handleDelete :: "env \<Rightarrow> jsstring \<Rightarrow> jsstring option \<Rightarrow> State \<Rightarrow> State \<times> call list" where
  "handleDelete w i c s0 =
     (let s = s0\<lparr>loading := True, error := None\<rparr>
      in case thrown w (DeleteProduct i c) of
           Some message \<Rightarrow>
             (s\<lparr>error := Some (js ''Failed to delete product.''), loading := False\<rparr>,
              [DeleteProduct i c])
         | None \<Rightarrow>
             (let s1 = (if map_option p_id (editingProduct s) = Some i
                        then handleCancelEdit s else s);
                  (s2, cs) = load w s1
              in (s2\<lparr>loading := False\<rparr>, [DeleteProduct i c] @ cs)))"

subsection \<open>Events\<close>

text \<open>Everything the operator can do, and the handler each event runs.\<close>

datatype event =
    Mount
  | TypePassword jsstring
  | Login
  | Change field jsstring
  | ChangeCategory jsstring
  | ChooseFile "File option"
  | ChangeImageUrl jsstring
  | Submit
  | Edit ApiProduct
  | CancelEdit
  | Delete jsstring "jsstring option"

fun step :: "env \<Rightarrow> event \<Rightarrow> State \<Rightarrow> State \<times> call list" where
  "step w Mount s = mount w s"
| "step w (TypePassword v) s = (s\<lparr>password := v\<rparr>, [])"
| "step w Login s = handleLogin w s"
| "step w (Change name v) s = (handleChange name v s, [])"
| "step w (ChangeCategory v) s = (category_onChange v s, [])"
| "step w (ChooseFile chosen) s = (file_onChange chosen s, [])"
| "step w (ChangeImageUrl v) s = (imageUrl_onChange v s, [])"
| "step w Submit s = handleSubmit w s"
| "step w (Edit product) s = (handleEdit product s, [])"
| "step w CancelEdit s = (handleCancelEdit s, [])"
| "step w (Delete i c) s = handleDelete w i c s"

subsection \<open>Sample inputs\<close>

text \<open>A stored accessory whose image reference is under the legacy key.\<close>

definition locket :: ApiProduct where
  "locket =
     \<lparr>p_id = js ''p1'', p_title = js ''Locket'', p_description = Some (js ''Gold locket''),
      p_price = Some (js ''900''), p_originalPrice = None, p_offerPrice = None,
      p_category = Some (js ''accessories''), p_subcategory = Some (js ''Necklaces''),
      p_imageUrl = None, p_image = Some (js ''/img/locket.png''), p_badge = None,
      p_availableQuantity = Some (Number (js ''4''))\<rparr>"

text \<open>A store and image host that answer every call, and ones that refuse every call.\<close>

definition store_up :: env where
  "store_up =
     \<lparr>fetchAllProducts = Inr \<lparr>accessories = [locket], gifts = []\<rparr>,
      createProduct = (\<lambda>product. Inr locket),
      updateProduct = (\<lambda>i c product. Inr locket),
      deleteProduct = (\<lambda>i c. Inr locket),
      uploadImage = (\<lambda>f. Inr (js ''https://img.example/'' @ f)),
      ADMIN_PASSWORD = js ''admin123'', API_BASE = js ''http://localhost:4000''\<rparr>"

definition store_down :: env where
  "store_down =
     \<lparr>fetchAllProducts = Inl (js ''HTTP 500''),
      createProduct = (\<lambda>product. Inl (js ''HTTP 500'')),
      updateProduct = (\<lambda>i c product. Inl (js ''HTTP 500'')),
      deleteProduct = (\<lambda>i c. Inl (js ''HTTP 500'')),
      uploadImage = (\<lambda>f. Inl (js ''File too large'')),
      ADMIN_PASSWORD = js ''admin123'', API_BASE = js ''http://localhost:4000''\<rparr>"

text \<open>The state of an authenticated session with an empty draft.\<close>

definition fresh :: State where
  "fresh = initialState True"

text \<open>A gift drafted with a title, an original price and a pasted image URL only.\<close>

definition mug_draft :: State where
  "mug_draft =
     fresh\<lparr>form := initialForm\<lparr>title := js ''Mug'', originalPrice := js ''250'',
                                  category := js ''gifts'',
                                  imageUrl := js ''https://img.example/mug.png''\<rparr>\<rparr>"

text \<open>
  A draft whose title is a no-break space and an em space, and an accessory whose quantity
  is beyond the integers a double holds exactly.
\<close>

definition spaces_title_draft :: State where
  "spaces_title_draft =
     fresh\<lparr>form := initialForm\<lparr>title := [160, 8195],
                                  imageUrl := js ''https://img.example/ring.png''\<rparr>\<rparr>"


text \<open>A draft whose title is one space, and one without any image source.\<close>

definition blank_title_draft :: State where
  "blank_title_draft =
     fresh\<lparr>form := initialForm\<lparr>title := js '' '',
                                  imageUrl := js ''https://img.example/ring.png''\<rparr>\<rparr>"

definition no_image_draft :: State where
  "no_image_draft = fresh\<lparr>form := initialForm\<lparr>title := js ''Ring''\<rparr>\<rparr>"


text \<open>The draft of the ring scenario, with a pasted image URL.\<close>

definition ring_draft :: State where
  "ring_draft =
     fresh\<lparr>form := initialForm\<lparr>title := js ''Ring'', originalPrice := js ''500'',
                                  imageUrl := js ''https://img.example/ring.png''\<rparr>\<rparr>"

section \<open>Properties\<close>

subsection \<open>Literals\<close>

lemma js_Nil_iff [simp]: "js s = [] \<longleftrightarrow> s = []" "[] = js s \<longleftrightarrow> s = []"
  by (auto simp: js_def)

subsection \<open>Looking a key up in the payload\<close>

lemma map_of_delete_if_falsy_same:
  "map_of (delete_if_falsy k pd) k = (if truthy (map_of pd k) then map_of pd k else None)"
  by (simp add: delete_if_falsy_def delete_conv')

lemma map_of_delete_if_falsy_other:
  "k' \<noteq> k \<Longrightarrow> map_of (delete_if_falsy k pd) k' = map_of pd k'"
  by (simp add: delete_if_falsy_def delete_conv')

lemma map_of_set_quantity_same:
  "map_of (set_quantity f pd) ''availableQuantity'' =
     (if category f = js ''accessories'' \<and> availableQuantity f \<noteq> []
      then Some (JNum (parseInt (availableQuantity f))) else None)"
  by (simp add: set_quantity_def update_conv' delete_conv')

lemma map_of_set_quantity_other:
  "k \<noteq> ''availableQuantity'' \<Longrightarrow> map_of (set_quantity f pd) k = map_of pd k"
  by (simp add: set_quantity_def update_conv' delete_conv')

lemma map_of_backfill_price_same:
  "map_of (backfill_price pd) ''price'' =
     (if \<not> truthy (map_of pd ''price'') \<and> truthy (map_of pd ''originalPrice'')
      then map_of pd ''originalPrice'' else map_of pd ''price'')"
  by (auto simp add: backfill_price_def update_conv' split: option.splits)

lemma map_of_backfill_price_other:
  "k \<noteq> ''price'' \<Longrightarrow> map_of (backfill_price pd) k = map_of pd k"
  by (simp add: backfill_price_def update_conv' split: option.splits)

lemma map_of_with_imageUrl:
  "map_of (AList.update ''imageUrl'' v (spread f)) k =
     (if k = ''imageUrl'' then Some v else map_of (spread f) k)"
  by (simp add: update_conv')

lemmas payload_simps =
  buildPayload_def Let_def map_of_delete_if_falsy_same map_of_delete_if_falsy_other
  map_of_set_quantity_same map_of_set_quantity_other map_of_backfill_price_same
  map_of_backfill_price_other map_of_with_imageUrl


lemma payload_lookup:
  "map_of (buildPayload f u) ''title'' = Some (JStr (title f))"
  "map_of (buildPayload f u) ''description'' = Some (JStr (description f))"
  "map_of (buildPayload f u) ''category'' = Some (JStr (category f))"
  "map_of (buildPayload f u) ''imageUrl'' = Some (JStr u)"
  "map_of (buildPayload f u) ''price'' =
     Some (JStr (if price f = [] then originalPrice f else price f))"
  "map_of (buildPayload f u) ''originalPrice'' =
     (if originalPrice f = [] then None else Some (JStr (originalPrice f)))"
  "map_of (buildPayload f u) ''offerPrice'' =
     (if offerPrice f = [] then None else Some (JStr (offerPrice f)))"
  "map_of (buildPayload f u) ''subcategory'' =
     (if subcategory f = [] then None else Some (JStr (subcategory f)))"
  "map_of (buildPayload f u) ''badge'' =
     (if badge f = [] then None else Some (JStr (badge f)))"
  "map_of (buildPayload f u) ''availableQuantity'' =
     (if category f = js ''accessories'' \<and> availableQuantity f \<noteq> []
      then Some (JNum (parseInt (availableQuantity f))) else None)"
  by (simp_all add: payload_simps spread_def)

lemma trim_Nil [simp]: "trim [] = []"
  by (simp add: trim_def)

lemma title_Ring: "trim (js ''Ring'') \<noteq> []"
  by code_simp


subsection \<open>The phases of a submit\<close>

lemma resolve_fst:
  "fst (resolve_image w s) =
     (case imageFile s of
        Some f \<Rightarrow> (case uploadImage w f of
                     Inl m \<Rightarrow> Inl (js ''Image upload failed: '' @ m)
                   | Inr url \<Rightarrow> retain_image s url)
      | None \<Rightarrow> retain_image s (imageUrl (form s)))"
  by (simp add: resolve_image_def upload_selected_def split: option.splits sum.splits)

lemma resolve_state:
  "fst (snd (resolve_image w s)) =
     (case imageFile s of Some f \<Rightarrow> s\<lparr>uploadingImage := False\<rparr> | None \<Rightarrow> s)"
  by (simp add: resolve_image_def upload_selected_def split: option.splits sum.splits)

lemma resolve_calls:
  "snd (snd (resolve_image w s)) =
     (case imageFile s of Some f \<Rightarrow> [UploadImage f] | None \<Rightarrow> [])"
  by (simp add: resolve_image_def upload_selected_def split: option.splits sum.splits)

lemma retain_image_upd [simp]:
  "retain_image (s\<lparr>loading := a, error := b\<rparr>) u = retain_image s u"
  by (simp add: retain_image_def split: option.splits)

lemma submission_upd [simp]:
  "submission (s\<lparr>loading := a, error := b\<rparr>) P = submission s P"
  by (simp add: submission_def split: option.splits)

lemma resolve_fst_upd [simp]:
  "fst (resolve_image w (s\<lparr>loading := a, error := b\<rparr>)) = fst (resolve_image w s)"
  by (simp add: resolve_fst split: option.splits sum.splits)

lemma resolve_calls_upd [simp]:
  "snd (snd (resolve_image w (s\<lparr>loading := a, error := b\<rparr>))) = snd (snd (resolve_image w s))"
  by (simp add: resolve_calls)

lemma load_calls [simp]: "snd (load w s) = [FetchAllProducts]"
  by (simp add: load_def split: sum.splits)

lemma submit_title_rejected:
  "trim (title (form s)) = [] \<Longrightarrow>
   handleSubmit w s = (s\<lparr>error := Some (js ''Title required''), loading := False\<rparr>, [])"
  by (simp add: handleSubmit_def submit_failed_def)

lemma submit_category_rejected:
  "trim (title (form s)) \<noteq> [] \<Longrightarrow> category (form s) = [] \<Longrightarrow>
   handleSubmit w s = (s\<lparr>error := Some (js ''Category required''), loading := False\<rparr>, [])"
  by (simp add: handleSubmit_def submit_failed_def)

lemma submit_unfold:
  "trim (title (form s)) \<noteq> [] \<Longrightarrow> category (form s) \<noteq> [] \<Longrightarrow>
   handleSubmit w s =
     (let s1 = fst (snd (resolve_image w (s\<lparr>loading := True, error := None\<rparr>)));
          cs = snd (snd (resolve_image w s))
      in case fst (resolve_image w s) of
           Inl message \<Rightarrow> submit_failed s1 cs message
         | Inr u \<Rightarrow>
             (let c = submission s (buildPayload (form s) u)
              in case thrown w c of
                   Some message \<Rightarrow> submit_failed s1 (cs @ [c]) message
                 | None \<Rightarrow>
                     (fst (load w (s1\<lparr>form := initialForm, editingProduct := None,
                                       imageFile := None\<rparr>))\<lparr>loading := False\<rparr>,
                      cs @ [c, FetchAllProducts])))"
  by (simp add: handleSubmit_def Let_def case_prod_beta split: sum.splits option.splits)


lemma resolve_state_fields [simp]:
  "form (fst (snd (resolve_image w s))) = form s"
  "editingProduct (fst (snd (resolve_image w s))) = editingProduct s"
  "imageFile (fst (snd (resolve_image w s))) = imageFile s"
  "products (fst (snd (resolve_image w s))) = products s"
  "error (fst (snd (resolve_image w s))) = error s"
  "loading (fst (snd (resolve_image w s))) = loading s"
  by (simp_all add: resolve_state split: option.splits)

lemma load_fields [simp]:
  "form (fst (load w s)) = form s"
  "editingProduct (fst (load w s)) = editingProduct s"
  "imageFile (fst (load w s)) = imageFile s"
  "products (fst (load w s)) =
     (case fetchAllProducts w of Inr data \<Rightarrow> data | Inl err \<Rightarrow> products s)"
  by (simp_all add: load_def split: sum.splits)

lemma submit_rejected_image:
  assumes "trim (title (form s)) \<noteq> []" "category (form s) \<noteq> []"
    and "fst (resolve_image w s) = Inl m"
  shows "snd (handleSubmit w s) = snd (snd (resolve_image w s))"
    and "error (fst (handleSubmit w s)) = Some (if m = [] then js ''Failed to add product.'' else m)"
    and "form (fst (handleSubmit w s)) = form s"
    and "products (fst (handleSubmit w s)) = products s"
  using assms by (simp_all add: submit_unfold Let_def submit_failed_def)

lemma submit_mutation_failed:
  assumes "trim (title (form s)) \<noteq> []" "category (form s) \<noteq> []"
    and "fst (resolve_image w s) = Inr u"
    and "thrown w (submission s (buildPayload (form s) u)) = Some m"
  shows "error (fst (handleSubmit w s)) = Some (if m = [] then js ''Failed to add product.'' else m)"
    and "form (fst (handleSubmit w s)) = form s"
    and "editingProduct (fst (handleSubmit w s)) = editingProduct s"
    and "imageFile (fst (handleSubmit w s)) = imageFile s"
    and "products (fst (handleSubmit w s)) = products s"
  using assms by (simp_all add: submit_unfold Let_def submit_failed_def)

lemma submit_succeeded:
  assumes "trim (title (form s)) \<noteq> []" "category (form s) \<noteq> []"
    and "fst (resolve_image w s) = Inr u"
    and "thrown w (submission s (buildPayload (form s) u)) = None"
  shows "form (fst (handleSubmit w s)) = initialForm"
    and "editingProduct (fst (handleSubmit w s)) = None"
    and "imageFile (fst (handleSubmit w s)) = None"
    and "loading (fst (handleSubmit w s)) = False"
    and "products (fst (handleSubmit w s)) =
           (case fetchAllProducts w of Inr data \<Rightarrow> data | Inl err \<Rightarrow> products s)"
  using assms by (simp_all add: submit_unfold Let_def split: sum.splits)

subsection \<open>The payload of a submit\<close>

lemma submit_calls:
  "snd (handleSubmit w s) =
     (if trim (title (form s)) = [] \<or> category (form s) = [] then []
      else snd (snd (resolve_image w s)) @
           (case fst (resolve_image w s) of
              Inl message \<Rightarrow> []
            | Inr u \<Rightarrow>
                submission s (buildPayload (form s) u) #
                (if call_ok w (submission s (buildPayload (form s) u))
                 then [FetchAllProducts] else [])))"
proof (cases "trim (title (form s)) = []")
  case True
  then show ?thesis by (simp add: submit_title_rejected)
next
  case title: False
  show ?thesis
  proof (cases "category (form s) = []")
    case True
    with title show ?thesis by (simp add: submit_category_rejected)
  next
    case False
    with title show ?thesis
      by (simp add: submit_unfold Let_def submit_failed_def call_ok_def
          split: sum.splits option.splits)
  qed
qed

lemma payloads_append: "payloads (xs @ ys) = payloads xs @ payloads ys"
  by (induction xs) (simp_all split: option.splits)

lemma payloads_uploads [simp]: "payloads (snd (snd (resolve_image w s))) = []"
  by (simp add: resolve_calls split: option.splits)

lemma payload_of_submission [simp]: "payload_of (submission s P) = Some P"
  by (simp add: submission_def split: option.splits)

lemma submit_payloads:
  "payloads (snd (handleSubmit w s)) =
     (if trim (title (form s)) = [] \<or> category (form s) = [] then []
      else case fst (resolve_image w s) of
             Inl message \<Rightarrow> []
           | Inr u \<Rightarrow> [buildPayload (form s) u])"
proof (cases "trim (title (form s)) = []")
  case True
  then show ?thesis by (simp add: submit_title_rejected)
next
  case title: False
  show ?thesis
  proof (cases "category (form s) = []")
    case True
    with title show ?thesis by (simp add: submit_category_rejected)
  next
    case False
    with title show ?thesis
      by (simp add: submit_unfold Let_def submit_failed_def payloads_append
          split: sum.splits option.splits)
  qed
qed

lemma filter_uploads [simp]: "filter is_submission (snd (snd (resolve_image w s))) = []"
  by (simp add: resolve_calls split: option.splits)

lemma is_submission_submission [simp]: "is_submission (submission s P)"
  by (simp add: submission_def split: option.splits)

lemma submit_submissions:
  "filter is_submission (snd (handleSubmit w s)) =
     (if trim (title (form s)) = [] \<or> category (form s) = [] then []
      else case fst (resolve_image w s) of
             Inl message \<Rightarrow> []
           | Inr u \<Rightarrow> [submission s (buildPayload (form s) u)])"
  by (simp add: submit_calls split: sum.splits)

lemma submit_mutations:
  "filter is_mutation (snd (handleSubmit w s)) = filter is_submission (snd (handleSubmit w s))"
  by (simp add: submit_calls resolve_calls submission_def split: sum.splits option.splits)


text \<open>
  Claim C1, as stated, fails: a gift drafted with an empty description is created with
  \<open>description\<close> bound to the empty string.
\<close>

theorem empty_description_is_sent:
  "description (form mug_draft) = []
   \<and> snd (handleSubmit store_up mug_draft) =
     [CreateProduct
        [(''title'', JStr (js ''Mug'')), (''description'', JStr []), (''price'', JStr (js ''250'')),
         (''originalPrice'', JStr (js ''250'')),
         (''category'', JStr (js ''gifts'')),
         (''imageUrl'', JStr (js ''https://img.example/mug.png''))],
      FetchAllProducts]
   \<and> map_of
        [(''title'', JStr (js ''Mug'')), (''description'', JStr []), (''price'', JStr (js ''250'')),
         (''originalPrice'', JStr (js ''250'')),
         (''category'', JStr (js ''gifts'')),
         (''imageUrl'', JStr (js ''https://img.example/mug.png''))] ''description'' =
       Some (JStr [])"
  by code_simp

text \<open>
  Claim C1, amended. In every payload a submit hands to \<open>createProduct\<close> or
  \<open>updateProduct\<close>, each of \<open>originalPrice\<close>, \<open>offerPrice\<close>, \<open>subcategory\<close> and \<open>badge\<close>
  is absent when its field is empty and carries the field otherwise; \<open>availableQuantity\<close>
  is absent when its field is empty and is never a string; \<open>title\<close> and \<open>category\<close>
  are present and not empty. The remaining keys are always present: \<open>description\<close> as
  typed, empty or not, \<open>price\<close> as typed or back-filled, and \<open>imageUrl\<close>.
\<close>

theorem pruned_fields_absent:
  assumes "P \<in> set (payloads (snd (handleSubmit w s)))"
  shows "map_of P ''originalPrice'' =
           (if originalPrice (form s) = [] then None
            else Some (JStr (originalPrice (form s))))
       \<and> map_of P ''offerPrice'' =
           (if offerPrice (form s) = [] then None else Some (JStr (offerPrice (form s))))
       \<and> map_of P ''subcategory'' =
           (if subcategory (form s) = [] then None else Some (JStr (subcategory (form s))))
       \<and> map_of P ''badge'' =
           (if badge (form s) = [] then None else Some (JStr (badge (form s))))
       \<and> (availableQuantity (form s) = [] \<longrightarrow> map_of P ''availableQuantity'' = None)
       \<and> map_of P ''availableQuantity'' \<noteq> Some (JStr [])
       \<and> map_of P ''title'' = Some (JStr (title (form s))) \<and> title (form s) \<noteq> []
       \<and> map_of P ''category'' = Some (JStr (category (form s))) \<and> category (form s) \<noteq> []
       \<and> map_of P ''description'' = Some (JStr (description (form s)))
       \<and> map_of P ''price'' =
           Some (JStr (if price (form s) = [] then originalPrice (form s)
                       else price (form s)))
       \<and> map_of P ''imageUrl'' \<noteq> None"
proof -
  from assms have valid: "trim (title (form s)) \<noteq> []" "category (form s) \<noteq> []"
    by (auto simp: submit_payloads split: if_splits)
  from assms valid obtain u where P: "P = buildPayload (form s) u"
    by (auto simp: submit_payloads split: sum.splits)
  from valid(1) have "title (form s) \<noteq> []" by auto
  with valid(2) show ?thesis
    unfolding P by (simp add: payload_lookup)
qed

theorem pruned_fields_absent_witness:
  "[(''title'', JStr (js ''Mug'')), (''description'', JStr []), (''price'', JStr (js ''250'')),
         (''originalPrice'', JStr (js ''250'')),
    (''category'', JStr (js ''gifts'')), (''imageUrl'', JStr (js ''https://img.example/mug.png''))]
     \<in> set (payloads (snd (handleSubmit store_up mug_draft)))
   \<and> map_of [(''title'', JStr (js ''Mug'')), (''description'', JStr []), (''price'', JStr (js ''250'')),
         (''originalPrice'', JStr (js ''250'')),
             (''category'', JStr (js ''gifts'')),
             (''imageUrl'', JStr (js ''https://img.example/mug.png''))] ''badge'' = None
   \<and> badge (form mug_draft) = []"
proof -
  have sent:
    "[(''title'', JStr (js ''Mug'')), (''description'', JStr []), (''price'', JStr (js ''250'')),
         (''originalPrice'', JStr (js ''250'')),
      (''category'', JStr (js ''gifts'')), (''imageUrl'', JStr (js ''https://img.example/mug.png''))]
       \<in> set (payloads (snd (handleSubmit store_up mug_draft)))"
    by code_simp
  have empty: "badge (form mug_draft) = []"
    by code_simp
  from pruned_fields_absent [OF sent] empty sent show ?thesis
    by simp
qed


subsection \<open>The legacy price\<close>

lemma ring_payload:
  "buildPayload (initialForm\<lparr>title := js ''Ring'', originalPrice := js ''500'', imageUrl := u\<rparr>) u =
     [(''title'', JStr (js ''Ring'')), (''description'', JStr []), (''price'', JStr (js ''500'')),
      (''originalPrice'', JStr (js ''500'')), (''category'', JStr (js ''accessories'')),
      (''imageUrl'', JStr u)]"
  by code_simp

text \<open>
  Claim C5. In every payload a submit sends for a draft whose legacy price is empty and
  whose \<open>originalPrice\<close> is not, \<open>price\<close> is bound to the \<open>originalPrice\<close>. In
  particular the creation of the ring (title, category \<open>accessories\<close>,
  \<open>originalPrice\<close> 500, a pasted image URL, nothing else) issues \<open>createProduct\<close> with
  exactly the keys \<open>title\<close>, \<open>description\<close>, \<open>price\<close>, \<open>originalPrice\<close>, \<open>category\<close> and
  \<open>imageUrl\<close>: no \<open>offerPrice\<close>, \<open>badge\<close>, \<open>subcategory\<close> or \<open>availableQuantity\<close>, and
  \<open>price\<close> is 500.
\<close>

theorem legacy_price_backfilled:
  "(P \<in> set (payloads (snd (handleSubmit w s))) \<and> price (form s) = []
      \<and> originalPrice (form s) \<noteq> []
    \<longrightarrow> map_of P ''price'' = Some (JStr (originalPrice (form s))))
   \<and> (u \<noteq> [] \<longrightarrow>
       snd (handleSubmit w
              (s\<lparr>form := initialForm\<lparr>title := js ''Ring'', originalPrice := js ''500'',
                                       imageUrl := u\<rparr>,
                 imageFile := None, editingProduct := None\<rparr>)) =
         CreateProduct
           [(''title'', JStr (js ''Ring'')), (''description'', JStr []), (''price'', JStr (js ''500'')),
            (''originalPrice'', JStr (js ''500'')), (''category'', JStr (js ''accessories'')),
            (''imageUrl'', JStr u)] #
         (if call_ok w (CreateProduct
            [(''title'', JStr (js ''Ring'')), (''description'', JStr []), (''price'', JStr (js ''500'')),
             (''originalPrice'', JStr (js ''500'')), (''category'', JStr (js ''accessories'')),
             (''imageUrl'', JStr u)])
          then [FetchAllProducts] else []))"
proof (intro conjI impI)
  assume a: "P \<in> set (payloads (snd (handleSubmit w s))) \<and> price (form s) = []
      \<and> originalPrice (form s) \<noteq> []"
  then obtain u' where "P = buildPayload (form s) u'"
    by (auto simp: submit_payloads split: if_splits sum.splits)
  with a show "map_of P ''price'' = Some (JStr (originalPrice (form s)))"
    by (simp add: payload_lookup)
next
  assume u: "u \<noteq> []"
  let ?s = "s\<lparr>form := initialForm\<lparr>title := js ''Ring'', originalPrice := js ''500'',
                                       imageUrl := u\<rparr>,
                 imageFile := None, editingProduct := None\<rparr>"
  have t: "trim (title (form ?s)) \<noteq> []" by (simp add: title_Ring)
  have c: "category (form ?s) \<noteq> []" by (simp add: initialForm_def)
  have r: "fst (resolve_image w ?s) = Inr u" using u
    by (simp add: resolve_fst retain_image_def)
  have n: "snd (snd (resolve_image w ?s)) = []" by (simp add: resolve_calls)
  have f: "form ?s = initialForm\<lparr>title := js ''Ring'', originalPrice := js ''500'', imageUrl := u\<rparr>"
    by simp
  have d: "submission ?s X = CreateProduct X" for X by (simp add: submission_def)
  show "snd (handleSubmit w ?s) =
         CreateProduct
           [(''title'', JStr (js ''Ring'')), (''description'', JStr []), (''price'', JStr (js ''500'')),
            (''originalPrice'', JStr (js ''500'')), (''category'', JStr (js ''accessories'')),
            (''imageUrl'', JStr u)] #
         (if call_ok w (CreateProduct
            [(''title'', JStr (js ''Ring'')), (''description'', JStr []), (''price'', JStr (js ''500'')),
             (''originalPrice'', JStr (js ''500'')), (''category'', JStr (js ''accessories'')),
             (''imageUrl'', JStr u)])
          then [FetchAllProducts] else [])"
    using t c u
    by (simp add: submit_calls resolve_fst resolve_calls retain_image_def submission_def
        ring_payload)
qed

theorem legacy_price_backfilled_witness:
  "payloads (snd (handleSubmit store_up ring_draft)) =
     [[(''title'', JStr (js ''Ring'')), (''description'', JStr []), (''price'', JStr (js ''500'')),
       (''originalPrice'', JStr (js ''500'')), (''category'', JStr (js ''accessories'')),
       (''imageUrl'', JStr (js ''https://img.example/ring.png''))]]
   \<and> price (form ring_draft) = [] \<and> originalPrice (form ring_draft) = js ''500''
   \<and> map_of [(''title'', JStr (js ''Ring'')), (''description'', JStr []), (''price'', JStr (js ''500'')),
       (''originalPrice'', JStr (js ''500'')), (''category'', JStr (js ''accessories'')),
       (''imageUrl'', JStr (js ''https://img.example/ring.png''))] ''price'' = Some (JStr (js ''500''))
   \<and> snd (handleSubmit store_up ring_draft) =
       [CreateProduct
         [(''title'', JStr (js ''Ring'')), (''description'', JStr []), (''price'', JStr (js ''500'')),
          (''originalPrice'', JStr (js ''500'')), (''category'', JStr (js ''accessories'')),
          (''imageUrl'', JStr (js ''https://img.example/ring.png''))],
        FetchAllProducts]"
proof -
  let ?P = "[(''title'', JStr (js ''Ring'')), (''description'', JStr []), (''price'', JStr (js ''500'')),
       (''originalPrice'', JStr (js ''500'')), (''category'', JStr (js ''accessories'')),
       (''imageUrl'', JStr (js ''https://img.example/ring.png''))]"
  have sent: "payloads (snd (handleSubmit store_up ring_draft)) = [?P]"
    by code_simp
  have fields: "price (form ring_draft) = []" "originalPrice (form ring_draft) = js ''500''"
    by code_simp+
  have same: "ring_draft\<lparr>form := initialForm\<lparr>title := js ''Ring'', originalPrice := js ''500'',
                                       imageUrl := js ''https://img.example/ring.png''\<rparr>,
                 imageFile := None, editingProduct := None\<rparr> = ring_draft"
    by (simp add: ring_draft_def fresh_def initialState_def)
  have ok: "call_ok store_up (CreateProduct ?P)"
    by (simp add: call_ok_def store_up_def)
  from legacy_price_backfilled [of ?P store_up ring_draft "js ''https://img.example/ring.png''"]
  show ?thesis
    unfolding same using sent fields ok by simp
qed


subsection \<open>The quantity of an accessory\<close>



subsection \<open>The legacy image key\<close>

lemma payload_no_image: "map_of (buildPayload f u) ''image'' = None"
  by (simp add: payload_simps spread_def)

lemma orElse_not_Nil: "d \<noteq> [] \<Longrightarrow> orElse a d \<noteq> []"
  by (cases a) auto

text \<open>
  Claim C10. No payload a submit sends has the key \<open>image\<close>. When the product being
  edited has no \<open>imageUrl\<close> and its image reference is in \<open>image\<close>, no file is selected
  and the URL field is empty or still holds what \<open>handleEdit\<close> put there, the submit of a
  draft that passes the title and category checks issues one update whose payload carries
  that reference under \<open>imageUrl\<close>. \<open>handleEdit\<close> leaves the console in such a state, and
  it stays in one while the operator changes the other fields or the category, clears the
  URL field, or leaves the file chooser without a file.
\<close>

theorem legacy_image_key_never_sent:
  "(P \<in> set (payloads (snd (handleSubmit w s))) \<longrightarrow> map_of P ''image'' = None)
   \<and> (editingProduct s1 = Some p \<and> imageFile s1 = None
        \<and> (imageUrl (form s1) = [] \<or> imageUrl (form s1) = existing_image p)
        \<and> orElse (p_imageUrl p) [] = [] \<and> p_image p = Some v \<and> v \<noteq> []
        \<and> trim (title (form s1)) \<noteq> [] \<and> category (form s1) \<noteq> [] \<longrightarrow>
       filter is_submission (snd (handleSubmit w s1)) =
         [UpdateProduct (p_id p) (category (form s1)) (buildPayload (form s1) v)]
       \<and> map_of (buildPayload (form s1) v) ''imageUrl'' = Some (JStr v)
       \<and> map_of (buildPayload (form s1) v) ''image'' = None)
   \<and> editingProduct (handleEdit p s0) = Some p
   \<and> imageFile (handleEdit p s0) = None
   \<and> imageUrl (form (handleEdit p s0)) = existing_image p
   \<and> (name \<noteq> FImageUrl \<longrightarrow>
       editingProduct (handleChange name x s2) = editingProduct s2
       \<and> imageFile (handleChange name x s2) = imageFile s2
       \<and> imageUrl (form (handleChange name x s2)) = imageUrl (form s2))
   \<and> editingProduct (category_onChange x s2) = editingProduct s2
   \<and> imageFile (category_onChange x s2) = imageFile s2
   \<and> imageUrl (form (category_onChange x s2)) = imageUrl (form s2)
   \<and> editingProduct (imageUrl_onChange [] s2) = editingProduct s2
   \<and> imageFile (imageUrl_onChange [] s2) = imageFile s2
   \<and> imageUrl (form (imageUrl_onChange [] s2)) = []
   \<and> file_onChange None s2 = s2"
proof (intro conjI impI)
  assume "P \<in> set (payloads (snd (handleSubmit w s)))"
  then obtain u where "P = buildPayload (form s) u"
    by (auto simp: submit_payloads split: if_splits sum.splits)
  then show "map_of P ''image'' = None"
    by (simp add: payload_no_image)
next
  assume a: "editingProduct s1 = Some p \<and> imageFile s1 = None
        \<and> (imageUrl (form s1) = [] \<or> imageUrl (form s1) = existing_image p)
        \<and> orElse (p_imageUrl p) [] = [] \<and> p_image p = Some v \<and> v \<noteq> []
        \<and> trim (title (form s1)) \<noteq> [] \<and> category (form s1) \<noteq> []"
  then have url: "existing_image p = v"
    unfolding existing_image_def by (cases "p_imageUrl p") (auto split: if_splits)
  with a have r: "fst (resolve_image w s1) = Inr v"
    by (auto simp: resolve_fst retain_image_def)
  from a have "submission s1 X = UpdateProduct (p_id p) (category (form s1)) X" for X
    by (simp add: submission_def)
  with a r show "filter is_submission (snd (handleSubmit w s1)) =
         [UpdateProduct (p_id p) (category (form s1)) (buildPayload (form s1) v)]"
    by (simp add: submit_submissions)
  show "map_of (buildPayload (form s1) v) ''imageUrl'' = Some (JStr v)"
    by (simp add: payload_lookup)
  show "map_of (buildPayload (form s1) v) ''image'' = None"
    by (simp add: payload_no_image)
next
  show "editingProduct (handleEdit p s0) = Some p"
    and "imageFile (handleEdit p s0) = None"
    and "imageUrl (form (handleEdit p s0)) = existing_image p"
    by (simp_all add: handleEdit_def existing_image_def)
next
  assume "name \<noteq> FImageUrl"
  then show "imageUrl (form (handleChange name x s2)) = imageUrl (form s2)"
    by (cases name) (simp_all add: handleChange_def)
  show "editingProduct (handleChange name x s2) = editingProduct s2"
    and "imageFile (handleChange name x s2) = imageFile s2"
    by (simp_all add: handleChange_def)
next
  show "editingProduct (category_onChange x s2) = editingProduct s2"
    and "imageFile (category_onChange x s2) = imageFile s2"
    and "imageUrl (form (category_onChange x s2)) = imageUrl (form s2)"
    by (simp_all add: category_onChange_def handleChange_def Let_def)
  show "editingProduct (imageUrl_onChange [] s2) = editingProduct s2"
    and "imageFile (imageUrl_onChange [] s2) = imageFile s2"
    and "imageUrl (form (imageUrl_onChange [] s2)) = []"
    by (simp_all add: imageUrl_onChange_def handleChange_def Let_def)
  show "file_onChange None s2 = s2"
    by (simp add: file_onChange_def)
qed

theorem legacy_image_key_never_sent_witness:
  "[(''title'', JStr (js ''Locket'')), (''description'', JStr (js ''Silver locket'')),
    (''price'', JStr (js ''900'')), (''category'', JStr (js ''accessories'')),
    (''subcategory'', JStr (js ''Necklaces'')), (''imageUrl'', JStr (js ''/img/locket.png'')),
    (''availableQuantity'', JNum (JInt 4))]
     \<in> set (payloads (snd (handleSubmit store_up
           (handleChange FDescription (js ''Silver locket'') (handleEdit locket fresh)))))
   \<and> p_imageUrl locket = None \<and> p_image locket = Some (js ''/img/locket.png'')
   \<and> filter is_submission (snd (handleSubmit store_up
         (handleChange FDescription (js ''Silver locket'') (handleEdit locket fresh)))) =
       [UpdateProduct (js ''p1'') (js ''accessories'')
         [(''title'', JStr (js ''Locket'')), (''description'', JStr (js ''Silver locket'')),
          (''price'', JStr (js ''900'')), (''category'', JStr (js ''accessories'')),
          (''subcategory'', JStr (js ''Necklaces'')),
          (''imageUrl'', JStr (js ''/img/locket.png'')),
          (''availableQuantity'', JNum (JInt 4))]]
   \<and> imageUrl (form (handleChange FDescription (js ''Silver locket'')
         (handleEdit locket fresh))) = existing_image locket"
proof -
  let ?s = "handleChange FDescription (js ''Silver locket'') (handleEdit locket fresh)"
  let ?P = "[(''title'', JStr (js ''Locket'')), (''description'', JStr (js ''Silver locket'')),
    (''price'', JStr (js ''900'')), (''category'', JStr (js ''accessories'')),
    (''subcategory'', JStr (js ''Necklaces'')), (''imageUrl'', JStr (js ''/img/locket.png'')),
    (''availableQuantity'', JNum (JInt 4))]"
  have mem: "?P \<in> set (payloads (snd (handleSubmit store_up ?s)))"
    by code_simp
  have legacy: "p_imageUrl locket = None" "p_image locket = Some (js ''/img/locket.png'')"
    by (simp_all add: locket_def)
  note inst = legacy_image_key_never_sent
      [of ?P store_up ?s ?s locket "js ''/img/locket.png''" fresh FDescription
          "js ''Silver locket''" "handleEdit locket fresh"]
  have other: "FDescription \<noteq> FImageUrl"
    by simp
  from inst other have kept: "imageUrl (form ?s) = imageUrl (form (handleEdit locket fresh))"
    "imageUrl (form (handleEdit locket fresh)) = existing_image locket"
    by blast+
  from kept have prefilled: "imageUrl (form ?s) = existing_image locket"
    by (rule trans)
  have hyp: "editingProduct ?s = Some locket \<and> imageFile ?s = None
        \<and> (imageUrl (form ?s) = [] \<or> imageUrl (form ?s) = existing_image locket)
        \<and> orElse (p_imageUrl locket) [] = [] \<and> p_image locket = Some (js ''/img/locket.png'')
        \<and> js ''/img/locket.png'' \<noteq> []
        \<and> trim (title (form ?s)) \<noteq> [] \<and> category (form ?s) \<noteq> []"
    by code_simp
  have ev: "p_id locket = js ''p1''" "category (form ?s) = js ''accessories''"
    "buildPayload (form ?s) (js ''/img/locket.png'') = ?P"
    by code_simp+
  from inst hyp have "filter is_submission (snd (handleSubmit store_up ?s)) =
         [UpdateProduct (p_id locket) (category (form ?s))
            (buildPayload (form ?s) (js ''/img/locket.png''))]"
    by blast
  then have "filter is_submission (snd (handleSubmit store_up ?s)) =
       [UpdateProduct (js ''p1'') (js ''accessories'') ?P]"
    by (simp only: ev)
  with mem legacy prefilled show ?thesis by blast
qed

subsection \<open>Image resolution\<close>

text \<open>
  Claim C2. For a draft that passes the title and category checks, the image reference
  of the payload is resolved in this order: with a file selected, the URL the upload
  returned, whatever the URL field holds (a URL being a non-empty string; an empty answer
  is used as it is on an edit); else the URL field when it is not empty; else, on an edit,
  the edited product's \<open>imageUrl\<close>, or its legacy \<open>image\<close>; else the submit fails with a
  validation error and issues no call. Selecting a file empties the URL field, and typing
  a non-empty URL clears the selected file.
\<close>

theorem image_resolution_precedence:
  "(trim (title (form s)) \<noteq> [] \<and> category (form s) \<noteq> [] \<longrightarrow>
      (imageFile s = Some f \<and> uploadImage w f = Inr u
         \<and> (u \<noteq> [] \<or> editingProduct s \<noteq> None) \<longrightarrow>
       payloads (snd (handleSubmit w s)) = [buildPayload (form s) u]
       \<and> map_of (buildPayload (form s) u) ''imageUrl'' = Some (JStr u))
    \<and> (imageFile s = None \<and> imageUrl (form s) \<noteq> [] \<longrightarrow>
       payloads (snd (handleSubmit w s)) = [buildPayload (form s) (imageUrl (form s))]
       \<and> map_of (buildPayload (form s) (imageUrl (form s))) ''imageUrl'' =
           Some (JStr (imageUrl (form s))))
    \<and> (imageFile s = None \<and> imageUrl (form s) = [] \<and> editingProduct s = Some p \<longrightarrow>
       payloads (snd (handleSubmit w s)) = [buildPayload (form s) (existing_image p)]
       \<and> map_of (buildPayload (form s) (existing_image p)) ''imageUrl'' =
           Some (JStr (existing_image p))
       \<and> existing_image p = orElse (p_imageUrl p) (orElse (p_image p) []))
    \<and> (imageFile s = None \<and> imageUrl (form s) = [] \<and> editingProduct s = None \<longrightarrow>
       snd (handleSubmit w s) = []
       \<and> error (fst (handleSubmit w s)) =
           Some (js ''Please provide an image (upload file or enter URL)'')))
   \<and> imageFile (file_onChange (Some f) s) = Some f
   \<and> imageUrl (form (file_onChange (Some f) s)) = []
   \<and> (v \<noteq> [] \<longrightarrow>
       imageFile (imageUrl_onChange v s) = None
       \<and> imageUrl (form (imageUrl_onChange v s)) = v)"
proof (intro conjI impI)
  assume valid: "trim (title (form s)) \<noteq> [] \<and> category (form s) \<noteq> []"
  {
    assume a: "imageFile s = Some f \<and> uploadImage w f = Inr u
         \<and> (u \<noteq> [] \<or> editingProduct s \<noteq> None)"
    then have "fst (resolve_image w s) = Inr u"
      by (auto simp: resolve_fst retain_image_def split: option.splits)
    with valid show "payloads (snd (handleSubmit w s)) = [buildPayload (form s) u]"
      by (simp add: submit_payloads)
    show "map_of (buildPayload (form s) u) ''imageUrl'' = Some (JStr u)"
      by (simp add: payload_lookup)
  }
  {
    assume a: "imageFile s = None \<and> imageUrl (form s) \<noteq> []"
    then have "fst (resolve_image w s) = Inr (imageUrl (form s))"
      by (auto simp: resolve_fst retain_image_def split: option.splits)
    with valid show
      "payloads (snd (handleSubmit w s)) = [buildPayload (form s) (imageUrl (form s))]"
      by (simp add: submit_payloads)
    show "map_of (buildPayload (form s) (imageUrl (form s))) ''imageUrl'' =
           Some (JStr (imageUrl (form s)))"
      by (simp add: payload_lookup)
  }
  {
    assume a: "imageFile s = None \<and> imageUrl (form s) = [] \<and> editingProduct s = Some p"
    then have "fst (resolve_image w s) = Inr (existing_image p)"
      by (auto simp: resolve_fst retain_image_def)
    with valid show
      "payloads (snd (handleSubmit w s)) = [buildPayload (form s) (existing_image p)]"
      by (simp add: submit_payloads)
    show "map_of (buildPayload (form s) (existing_image p)) ''imageUrl'' =
           Some (JStr (existing_image p))"
      by (simp add: payload_lookup)
    show "existing_image p = orElse (p_imageUrl p) (orElse (p_image p) [])"
      by (simp add: existing_image_def)
  }
  {
    assume a: "imageFile s = None \<and> imageUrl (form s) = [] \<and> editingProduct s = None"
    then have r: "fst (resolve_image w s) =
        Inl (js ''Please provide an image (upload file or enter URL)'')"
      by (auto simp: resolve_fst retain_image_def)
    from a have "snd (snd (resolve_image w s)) = []"
      by (simp add: resolve_calls)
    with valid r show "snd (handleSubmit w s) = []"
      by (simp add: submit_rejected_image(1))
    from valid r show "error (fst (handleSubmit w s)) =
           Some (js ''Please provide an image (upload file or enter URL)'')"
      by (simp add: submit_rejected_image(2))
  }
next
  show "imageFile (file_onChange (Some f) s) = Some f"
    by (simp add: file_onChange_def)
  show "imageUrl (form (file_onChange (Some f) s)) = []"
    by (simp add: file_onChange_def)
next
  assume "v \<noteq> []"
  then show "imageFile (imageUrl_onChange v s) = None"
    by (simp add: imageUrl_onChange_def handleChange_def)
  show "imageUrl (form (imageUrl_onChange v s)) = v"
    by (simp add: imageUrl_onChange_def handleChange_def Let_def)
qed


theorem image_resolution_precedence_witness:
  "payloads (snd (handleSubmit store_up (ring_draft\<lparr>imageFile := Some (js ''new.png'')\<rparr>))) =
     [buildPayload (form ring_draft) (js ''https://img.example/new.png'')]
   \<and> imageUrl (form ring_draft) = js ''https://img.example/ring.png''
   \<and> payloads (snd (handleSubmit store_up ring_draft)) =
     [buildPayload (form ring_draft) (js ''https://img.example/ring.png'')]
   \<and> payloads (snd (handleSubmit store_up (imageUrl_onChange [] (handleEdit locket fresh)))) =
     [buildPayload (form (imageUrl_onChange [] (handleEdit locket fresh))) (js ''/img/locket.png'')]
   \<and> snd (handleSubmit store_up no_image_draft) = []
   \<and> error (fst (handleSubmit store_up no_image_draft)) =
       Some (js ''Please provide an image (upload file or enter URL)'')
   \<and> imageFile (imageUrl_onChange (js ''https://img.example/ring.png'')
        (ring_draft\<lparr>imageFile := Some (js ''new.png'')\<rparr>)) = None"
proof -
  have ring:
    "trim (title (form ring_draft)) \<noteq> [] \<and> category (form ring_draft) \<noteq> []"
    "imageFile ring_draft = None \<and> imageUrl (form ring_draft) \<noteq> []"
    "imageUrl (form ring_draft) = js ''https://img.example/ring.png''"
    by code_simp+
  have both:
    "trim (title (form (ring_draft\<lparr>imageFile := Some (js ''new.png'')\<rparr>))) \<noteq> []
     \<and> category (form (ring_draft\<lparr>imageFile := Some (js ''new.png'')\<rparr>)) \<noteq> []"
    "imageFile (ring_draft\<lparr>imageFile := Some (js ''new.png'')\<rparr>) = Some (js ''new.png'')
     \<and> uploadImage store_up (js ''new.png'') = Inr (js ''https://img.example/new.png'')
     \<and> ((js ''https://img.example/new.png'') \<noteq> []
         \<or> editingProduct (ring_draft\<lparr>imageFile := Some (js ''new.png'')\<rparr>) \<noteq> None)"
    by code_simp+
  have edit:
    "trim (title (form (imageUrl_onChange [] (handleEdit locket fresh)))) \<noteq> []
     \<and> category (form (imageUrl_onChange [] (handleEdit locket fresh))) \<noteq> []"
    "imageFile (imageUrl_onChange [] (handleEdit locket fresh)) = None
     \<and> imageUrl (form (imageUrl_onChange [] (handleEdit locket fresh))) = []
     \<and> editingProduct (imageUrl_onChange [] (handleEdit locket fresh)) = Some locket"
    "existing_image locket = js ''/img/locket.png''"
    by code_simp+
  have none:
    "trim (title (form no_image_draft)) \<noteq> [] \<and> category (form no_image_draft) \<noteq> []"
    "imageFile no_image_draft = None \<and> imageUrl (form no_image_draft) = []
     \<and> editingProduct no_image_draft = None"
    by code_simp+
  have typed: "(js ''https://img.example/ring.png'') \<noteq> []"
    by simp
  from image_resolution_precedence
         [of "ring_draft\<lparr>imageFile := Some (js ''new.png'')\<rparr>" "js ''new.png''" store_up
             "js ''https://img.example/new.png''" locket "js ''https://img.example/ring.png''"]
       both typed
  have a: "payloads (snd (handleSubmit store_up (ring_draft\<lparr>imageFile := Some (js ''new.png'')\<rparr>))) =
     [buildPayload (form (ring_draft\<lparr>imageFile := Some (js ''new.png'')\<rparr>))
        (js ''https://img.example/new.png'')]"
    and f: "imageFile (imageUrl_onChange (js ''https://img.example/ring.png'')
        (ring_draft\<lparr>imageFile := Some (js ''new.png'')\<rparr>)) = None"
    by blast+
  from image_resolution_precedence [of ring_draft _ store_up] ring(1,2)
  have b: "payloads (snd (handleSubmit store_up ring_draft)) =
     [buildPayload (form ring_draft) (imageUrl (form ring_draft))]"
    by blast
  from image_resolution_precedence
         [of "imageUrl_onChange [] (handleEdit locket fresh)" _ store_up _ locket] edit(1,2)
  have c: "payloads (snd (handleSubmit store_up (imageUrl_onChange [] (handleEdit locket fresh)))) =
     [buildPayload (form (imageUrl_onChange [] (handleEdit locket fresh)))
        (existing_image locket)]"
    by blast
  from image_resolution_precedence [of no_image_draft _ store_up] none
  have d: "snd (handleSubmit store_up no_image_draft) = []"
    "error (fst (handleSubmit store_up no_image_draft)) =
       Some (js ''Please provide an image (upload file or enter URL)'')"
    by blast+
  from a have a': "payloads (snd (handleSubmit store_up (ring_draft\<lparr>imageFile := Some (js ''new.png'')\<rparr>))) =
     [buildPayload (form ring_draft) (js ''https://img.example/new.png'')]"
    by simp
  from b have b': "payloads (snd (handleSubmit store_up ring_draft)) =
     [buildPayload (form ring_draft) (js ''https://img.example/ring.png'')]"
    by (simp only: ring(3))
  from c have c': "payloads (snd (handleSubmit store_up (imageUrl_onChange [] (handleEdit locket fresh)))) =
     [buildPayload (form (imageUrl_onChange [] (handleEdit locket fresh))) (js ''/img/locket.png'')]"
    by (simp only: edit(3))
  from a' ring(3) b' c' d f show ?thesis
    by blast
qed


subsection \<open>Rejected submits\<close>

text \<open>
  Claim C7. A submit whose title is empty (or only white space), whose category is empty,
  or that creates with neither file nor URL issues no call at all and sets the matching
  validation message. A submit whose upload throws issues the upload only and sets the message
  \<open>Image upload failed: \<close> followed by the message thrown, not that message itself. Every
  submit that stops at a check or at the upload issues neither \<open>createProduct\<close> nor
  \<open>updateProduct\<close>, sets an error and keeps the draft and the snapshot.
\<close>

theorem failed_submit_sends_nothing:
  "(trim (title (form s)) = [] \<longrightarrow>
      snd (handleSubmit w s) = []
      \<and> error (fst (handleSubmit w s)) = Some (js ''Title required''))
   \<and> (title (form s) = [] \<longrightarrow> trim (title (form s)) = [])
   \<and> (trim (title (form s)) \<noteq> [] \<and> category (form s) = [] \<longrightarrow>
      snd (handleSubmit w s) = []
      \<and> error (fst (handleSubmit w s)) = Some (js ''Category required''))
   \<and> (trim (title (form s)) \<noteq> [] \<and> category (form s) \<noteq> [] \<and> imageFile s = None
        \<and> imageUrl (form s) = [] \<and> editingProduct s = None \<longrightarrow>
      snd (handleSubmit w s) = []
      \<and> error (fst (handleSubmit w s)) =
          Some (js ''Please provide an image (upload file or enter URL)''))
   \<and> (trim (title (form s)) \<noteq> [] \<and> category (form s) \<noteq> [] \<and> imageFile s = Some f
        \<and> uploadImage w f = Inl m \<longrightarrow>
      snd (handleSubmit w s) = [UploadImage f]
      \<and> error (fst (handleSubmit w s)) = Some (js ''Image upload failed: '' @ m)
      \<and> error (fst (handleSubmit w s)) \<noteq> Some m)
   \<and> (trim (title (form s)) = [] \<or> category (form s) = [] \<or> isl (fst (resolve_image w s)) \<longrightarrow>
      filter is_submission (snd (handleSubmit w s)) = []
      \<and> error (fst (handleSubmit w s)) \<noteq> None
      \<and> form (fst (handleSubmit w s)) = form s
      \<and> products (fst (handleSubmit w s)) = products s)"
proof (intro conjI impI)
  assume "trim (title (form s)) = []"
  then show "snd (handleSubmit w s) = []"
    and "error (fst (handleSubmit w s)) = Some (js ''Title required'')"
    by (simp_all add: submit_title_rejected)
next
  assume "title (form s) = []"
  then show "trim (title (form s)) = []" by simp
next
  assume "trim (title (form s)) \<noteq> [] \<and> category (form s) = []"
  then show "snd (handleSubmit w s) = []"
    and "error (fst (handleSubmit w s)) = Some (js ''Category required'')"
    by (simp_all add: submit_category_rejected)
next
  assume a: "trim (title (form s)) \<noteq> [] \<and> category (form s) \<noteq> [] \<and> imageFile s = None
        \<and> imageUrl (form s) = [] \<and> editingProduct s = None"
  then have r: "fst (resolve_image w s) =
      Inl (js ''Please provide an image (upload file or enter URL)'')"
    by (simp add: resolve_fst retain_image_def)
  from a have "snd (snd (resolve_image w s)) = []"
    by (simp add: resolve_calls)
  with a r show "snd (handleSubmit w s) = []"
    by (simp add: submit_rejected_image(1))
  from a r show "error (fst (handleSubmit w s)) =
          Some (js ''Please provide an image (upload file or enter URL)'')"
    by (simp add: submit_rejected_image(2))
next
  assume a: "trim (title (form s)) \<noteq> [] \<and> category (form s) \<noteq> [] \<and> imageFile s = Some f
        \<and> uploadImage w f = Inl m"
  then have r: "fst (resolve_image w s) = Inl (js ''Image upload failed: '' @ m)"
    by (simp add: resolve_fst)
  from a have "snd (snd (resolve_image w s)) = [UploadImage f]"
    by (simp add: resolve_calls)
  with a r show "snd (handleSubmit w s) = [UploadImage f]"
    by (simp add: submit_rejected_image(1))
  from a r show e: "error (fst (handleSubmit w s)) = Some (js ''Image upload failed: '' @ m)"
    by (simp add: submit_rejected_image(2))
  show "error (fst (handleSubmit w s)) \<noteq> Some m"
    unfolding e by simp
next
  assume a: "trim (title (form s)) = [] \<or> category (form s) = []
      \<or> isl (fst (resolve_image w s))"
  show "filter is_submission (snd (handleSubmit w s)) = []"
    using a by (auto simp: submit_submissions split: sum.splits)
  consider "trim (title (form s)) = []"
    | "trim (title (form s)) \<noteq> []" "category (form s) = []"
    | m where "trim (title (form s)) \<noteq> []" "category (form s) \<noteq> []"
        "fst (resolve_image w s) = Inl m"
    using a by (cases "fst (resolve_image w s)") auto
  then show "error (fst (handleSubmit w s)) \<noteq> None"
    by cases (simp_all add: submit_title_rejected submit_category_rejected
        submit_rejected_image(2))
  consider "trim (title (form s)) = []"
    | "trim (title (form s)) \<noteq> []" "category (form s) = []"
    | m where "trim (title (form s)) \<noteq> []" "category (form s) \<noteq> []"
        "fst (resolve_image w s) = Inl m"
    using a by (cases "fst (resolve_image w s)") auto
  then show "form (fst (handleSubmit w s)) = form s"
    by cases (simp_all add: submit_title_rejected submit_category_rejected
        submit_rejected_image(3))
  consider "trim (title (form s)) = []"
    | "trim (title (form s)) \<noteq> []" "category (form s) = []"
    | m where "trim (title (form s)) \<noteq> []" "category (form s) \<noteq> []"
        "fst (resolve_image w s) = Inl m"
    using a by (cases "fst (resolve_image w s)") auto
  then show "products (fst (handleSubmit w s)) = products s"
    by cases (simp_all add: submit_title_rejected submit_category_rejected
        submit_rejected_image(4))
qed


theorem failed_submit_sends_nothing_witness:
  "snd (handleSubmit store_up blank_title_draft) = []
   \<and> error (fst (handleSubmit store_up blank_title_draft)) = Some (js ''Title required'')
   \<and> title (form spaces_title_draft) = [160, 8195]
   \<and> snd (handleSubmit store_up spaces_title_draft) = []
   \<and> error (fst (handleSubmit store_up spaces_title_draft)) = Some (js ''Title required'')
   \<and> title (form fresh) = [] \<and> trim (title (form fresh)) = []
   \<and> snd (handleSubmit store_up (ring_draft\<lparr>form := (form ring_draft)\<lparr>category := []\<rparr>\<rparr>)) = []
   \<and> error (fst (handleSubmit store_up
         (ring_draft\<lparr>form := (form ring_draft)\<lparr>category := []\<rparr>\<rparr>))) = Some (js ''Category required'')
   \<and> snd (handleSubmit store_up no_image_draft) = []
   \<and> snd (handleSubmit store_down (ring_draft\<lparr>imageFile := Some (js ''new.png'')\<rparr>)) =
       [UploadImage (js ''new.png'')]
   \<and> error (fst (handleSubmit store_down (ring_draft\<lparr>imageFile := Some (js ''new.png'')\<rparr>))) =
       Some (js ''Image upload failed: '' @ js ''File too large'')
   \<and> form (fst (handleSubmit store_down (ring_draft\<lparr>imageFile := Some (js ''new.png'')\<rparr>))) =
       form (ring_draft\<lparr>imageFile := Some (js ''new.png'')\<rparr>)"
proof -
  let ?uncategorised = "ring_draft\<lparr>form := (form ring_draft)\<lparr>category := []\<rparr>\<rparr>"
  let ?chosen = "ring_draft\<lparr>imageFile := Some (js ''new.png'')\<rparr>"
  have blank: "trim (title (form blank_title_draft)) = []"
    by code_simp
  have spaces: "title (form spaces_title_draft) = [160, 8195]"
    "trim (title (form spaces_title_draft)) = []"
    by code_simp+
  have untitled: "title (form fresh) = []"
    by code_simp
  have uncategorised:
    "trim (title (form ?uncategorised)) \<noteq> [] \<and> category (form ?uncategorised) = []"
    by code_simp
  have none:
    "trim (title (form no_image_draft)) \<noteq> [] \<and> category (form no_image_draft) \<noteq> []
     \<and> imageFile no_image_draft = None \<and> imageUrl (form no_image_draft) = []
     \<and> editingProduct no_image_draft = None"
    by code_simp
  have refused:
    "trim (title (form ?chosen)) \<noteq> [] \<and> category (form ?chosen) \<noteq> []
     \<and> imageFile ?chosen = Some (js ''new.png'')
     \<and> uploadImage store_down (js ''new.png'') = Inl (js ''File too large'')"
    by code_simp
  have unresolved:
    "trim (title (form ?chosen)) = [] \<or> category (form ?chosen) = []
     \<or> isl (fst (resolve_image store_down ?chosen))"
    by code_simp
  from failed_submit_sends_nothing [of blank_title_draft store_up] blank
  have 1: "snd (handleSubmit store_up blank_title_draft) = []"
    "error (fst (handleSubmit store_up blank_title_draft)) = Some (js ''Title required'')"
    by blast+
  from failed_submit_sends_nothing [of spaces_title_draft store_up] spaces(2)
  have 7: "snd (handleSubmit store_up spaces_title_draft) = []"
    "error (fst (handleSubmit store_up spaces_title_draft)) = Some (js ''Title required'')"
    by blast+
  from failed_submit_sends_nothing [of fresh store_up] untitled
  have 2: "trim (title (form fresh)) = []"
    by blast
  from failed_submit_sends_nothing [of ?uncategorised store_up] uncategorised
  have 3: "snd (handleSubmit store_up ?uncategorised) = []"
    "error (fst (handleSubmit store_up ?uncategorised)) = Some (js ''Category required'')"
    by blast+
  from failed_submit_sends_nothing [of no_image_draft store_up] none
  have 4: "snd (handleSubmit store_up no_image_draft) = []"
    by blast
  from failed_submit_sends_nothing [of ?chosen store_down "js ''new.png''" "js ''File too large''"]
    refused
  have 5: "snd (handleSubmit store_down ?chosen) = [UploadImage (js ''new.png'')]"
    "error (fst (handleSubmit store_down ?chosen)) =
       Some (js ''Image upload failed: '' @ js ''File too large'')"
    by blast+
  from failed_submit_sends_nothing [of ?chosen store_down] unresolved
  have 6: "form (fst (handleSubmit store_down ?chosen)) = form ?chosen"
    by blast
  from 1 spaces(1) 7 untitled 2 3 4 5 6 show ?thesis
    by blast
qed


subsection \<open>Mode dispatch\<close>

text \<open>
  Claim C3, as stated, fails twice. A draft whose title is a single space has a non-empty
  title, a valid category and a pasted image URL, and its submit issues no call. And the
  update of a product stored under \<open>accessories\<close>, after the operator switched the
  category control to \<open>gifts\<close>, is addressed with the category \<open>gifts\<close>.
\<close>

theorem blank_title_and_changed_category:
  "title (form blank_title_draft) = js '' ''
   \<and> category (form blank_title_draft) = js ''accessories''
   \<and> imageUrl (form blank_title_draft) = js ''https://img.example/ring.png''
   \<and> snd (handleSubmit store_up blank_title_draft) = []
   \<and> p_category locket = Some (js ''accessories'')
   \<and> snd (handleSubmit store_up (category_onChange (js ''gifts'') (handleEdit locket fresh))) =
       [UpdateProduct (js ''p1'') (js ''gifts'')
          [(''title'', JStr (js ''Locket'')), (''description'', JStr (js ''Gold locket'')),
           (''price'', JStr (js ''900'')), (''category'', JStr (js ''gifts'')),
           (''imageUrl'', JStr (js ''/img/locket.png''))],
        FetchAllProducts]"
  by code_simp

text \<open>
  Claim C3, amended. For every draft whose title is not blank after trimming, whose
  category is not empty and whose image resolves, the submit issues exactly one mutation:
  on an edit an update addressed by the edited product's identifier and the draft's
  current category, \<open>PUT /products/{id}?category={category of the form}\<close>; otherwise a
  creation, \<open>POST /products\<close>. When that call returns, the draft is the initial form and
  the editing target and the selected file are cleared; when it throws, all three are
  kept. \<open>handleEdit\<close> sets the editing target and \<open>handleCancelEdit\<close> clears it.
\<close>

theorem submit_dispatch:
  "(trim (title (form s)) \<noteq> [] \<and> category (form s) \<noteq> []
      \<and> fst (resolve_image w s) = Inr u \<longrightarrow>
      filter is_mutation (snd (handleSubmit w s)) = [submission s (buildPayload (form s) u)]
      \<and> (case editingProduct s of
            Some p \<Rightarrow>
              submission s (buildPayload (form s) u) =
                UpdateProduct (p_id p) (category (form s)) (buildPayload (form s) u)
              \<and> request_line base (submission s (buildPayload (form s) u)) =
                  (PUT, base @ js ''/products/'' @ p_id p @ js ''?category='' @ category (form s))
          | None \<Rightarrow>
              submission s (buildPayload (form s) u) = CreateProduct (buildPayload (form s) u)
              \<and> request_line base (submission s (buildPayload (form s) u)) =
                  (POST, base @ js ''/products''))
      \<and> (call_ok w (submission s (buildPayload (form s) u)) \<longrightarrow>
            form (fst (handleSubmit w s)) = initialForm
            \<and> editingProduct (fst (handleSubmit w s)) = None
            \<and> imageFile (fst (handleSubmit w s)) = None)
      \<and> (\<not> call_ok w (submission s (buildPayload (form s) u)) \<longrightarrow>
            form (fst (handleSubmit w s)) = form s
            \<and> editingProduct (fst (handleSubmit w s)) = editingProduct s
            \<and> imageFile (fst (handleSubmit w s)) = imageFile s))
   \<and> editingProduct (handleEdit p0 s0) = Some p0
   \<and> editingProduct (handleCancelEdit s0) = None"
proof (intro conjI impI)
  assume a: "trim (title (form s)) \<noteq> [] \<and> category (form s) \<noteq> []
      \<and> fst (resolve_image w s) = Inr u"
  then show "filter is_mutation (snd (handleSubmit w s)) =
      [submission s (buildPayload (form s) u)]"
    by (simp add: submit_mutations submit_submissions)
  show "case editingProduct s of
            Some p \<Rightarrow>
              submission s (buildPayload (form s) u) =
                UpdateProduct (p_id p) (category (form s)) (buildPayload (form s) u)
              \<and> request_line base (submission s (buildPayload (form s) u)) =
                  (PUT, base @ js ''/products/'' @ p_id p @ js ''?category='' @ category (form s))
          | None \<Rightarrow>
              submission s (buildPayload (form s) u) = CreateProduct (buildPayload (form s) u)
              \<and> request_line base (submission s (buildPayload (form s) u)) =
                  (POST, base @ js ''/products'')"
    by (simp add: submission_def split: option.splits)
  {
    assume "call_ok w (submission s (buildPayload (form s) u))"
    then have ok: "thrown w (submission s (buildPayload (form s) u)) = None"
      by (simp add: call_ok_def)
    from a ok show "form (fst (handleSubmit w s)) = initialForm"
      by (simp add: submit_succeeded(1))
    from a ok show "editingProduct (fst (handleSubmit w s)) = None"
      by (simp add: submit_succeeded(2))
    from a ok show "imageFile (fst (handleSubmit w s)) = None"
      by (simp add: submit_succeeded(3))
  }
  {
    assume "\<not> call_ok w (submission s (buildPayload (form s) u))"
    then obtain m where ko: "thrown w (submission s (buildPayload (form s) u)) = Some m"
      by (auto simp: call_ok_def)
    from a ko show "form (fst (handleSubmit w s)) = form s"
      by (simp add: submit_mutation_failed(2))
    from a ko show "editingProduct (fst (handleSubmit w s)) = editingProduct s"
      by (simp add: submit_mutation_failed(3))
    from a ko show "imageFile (fst (handleSubmit w s)) = imageFile s"
      by (simp add: submit_mutation_failed(4))
  }
next
  show "editingProduct (handleEdit p0 s0) = Some p0"
    by (simp add: handleEdit_def)
  show "editingProduct (handleCancelEdit s0) = None"
    by (simp add: handleCancelEdit_def)
qed

theorem submit_dispatch_witness:
  "filter is_mutation
     (snd (handleSubmit store_up (category_onChange (js ''gifts'') (handleEdit locket fresh)))) =
     [UpdateProduct (js ''p1'') (js ''gifts'')
        [(''title'', JStr (js ''Locket'')), (''description'', JStr (js ''Gold locket'')),
         (''price'', JStr (js ''900'')), (''category'', JStr (js ''gifts'')),
         (''imageUrl'', JStr (js ''/img/locket.png''))]]
   \<and> form (fst (handleSubmit store_up (category_onChange (js ''gifts'') (handleEdit locket fresh))))
       = initialForm
   \<and> editingProduct
         (fst (handleSubmit store_up (category_onChange (js ''gifts'') (handleEdit locket fresh))))
       = None
   \<and> form (fst (handleSubmit store_down ring_draft)) = form ring_draft"
proof -
  let ?s = "category_onChange (js ''gifts'') (handleEdit locket fresh)"
  let ?P = "[(''title'', JStr (js ''Locket'')), (''description'', JStr (js ''Gold locket'')),
         (''price'', JStr (js ''900'')), (''category'', JStr (js ''gifts'')),
         (''imageUrl'', JStr (js ''/img/locket.png''))]"
  have hyp: "trim (title (form ?s)) \<noteq> [] \<and> category (form ?s) \<noteq> []
      \<and> fst (resolve_image store_up ?s) = Inr (js ''/img/locket.png'')"
    by code_simp
  have dispatched: "submission ?s (buildPayload (form ?s) (js ''/img/locket.png'')) =
      UpdateProduct (js ''p1'') (js ''gifts'') ?P"
    by code_simp
  have accepted: "call_ok store_up (UpdateProduct (js ''p1'') (js ''gifts'') ?P)"
    by code_simp
  have hyp': "trim (title (form ring_draft)) \<noteq> [] \<and> category (form ring_draft) \<noteq> []
      \<and> fst (resolve_image store_down ring_draft) = Inr (js ''https://img.example/ring.png'')"
    by code_simp
  have ko: "\<not> call_ok store_down
      (submission ring_draft (buildPayload (form ring_draft) (js ''https://img.example/ring.png'')))"
    by code_simp
  note inst = submit_dispatch [of ?s store_up "js ''/img/locket.png''" "[]" locket fresh]
  from inst hyp have 1: "filter is_mutation (snd (handleSubmit store_up ?s)) =
      [submission ?s (buildPayload (form ?s) (js ''/img/locket.png''))]"
    by blast
  from inst hyp accepted have 2: "form (fst (handleSubmit store_up ?s)) = initialForm"
    "editingProduct (fst (handleSubmit store_up ?s)) = None"
    unfolding dispatched by blast+
  from submit_dispatch [of ring_draft store_down "js ''https://img.example/ring.png''"] hyp' ko
  have 3: "form (fst (handleSubmit store_down ring_draft)) = form ring_draft"
    by blast
  from 1 have sent: "filter is_mutation (snd (handleSubmit store_up ?s)) =
      [UpdateProduct (js ''p1'') (js ''gifts'') ?P]"
    by (simp only: dispatched)
  from sent 2 3 show ?thesis
    by blast
qed


subsection \<open>Deleting\<close>

lemma delete_calls:
  "snd (handleDelete w i c s) =
     DeleteProduct i c # (if call_ok w (DeleteProduct i c) then [FetchAllProducts] else [])"
  by (simp add: handleDelete_def Let_def call_ok_def case_prod_beta split: option.splits)

lemma delete_failed:
  assumes "\<not> call_ok w (DeleteProduct i c)"
  shows "form (fst (handleDelete w i c s)) = form s"
    and "editingProduct (fst (handleDelete w i c s)) = editingProduct s"
    and "imageFile (fst (handleDelete w i c s)) = imageFile s"
    and "products (fst (handleDelete w i c s)) = products s"
    and "error (fst (handleDelete w i c s)) = Some (js ''Failed to delete product.'')"
  using assms
  by (auto simp: handleDelete_def Let_def call_ok_def case_prod_beta split: option.splits)

lemma delete_succeeded:
  assumes "call_ok w (DeleteProduct i c)"
  shows "form (fst (handleDelete w i c s)) =
           (if map_option p_id (editingProduct s) = Some i then initialForm else form s)"
    and "editingProduct (fst (handleDelete w i c s)) =
           (if map_option p_id (editingProduct s) = Some i then None else editingProduct s)"
    and "imageFile (fst (handleDelete w i c s)) =
           (if map_option p_id (editingProduct s) = Some i then None else imageFile s)"
    and "products (fst (handleDelete w i c s)) =
           (case fetchAllProducts w of Inr data \<Rightarrow> data | Inl err \<Rightarrow> products s)"
  using assms
  by (auto simp: handleDelete_def Let_def call_ok_def case_prod_beta handleCancelEdit_def
      split: option.splits sum.splits)

text \<open>
  Claim C9. When the product whose identifier is the edit target is deleted and the call
  returns, the draft is the initial form and the editing target and the selected file are
  cleared, as \<open>handleCancelEdit\<close> leaves them. Deleting under any other identifier, or
  with nothing being edited, leaves all three as they were, and so does a delete that
  throws.
\<close>

theorem delete_of_edit_target_resets_draft:
  "(editingProduct s = Some p \<and> p_id p = i \<and> call_ok w (DeleteProduct i c) \<longrightarrow>
      form (fst (handleDelete w i c s)) = initialForm
      \<and> editingProduct (fst (handleDelete w i c s)) = None
      \<and> imageFile (fst (handleDelete w i c s)) = None
      \<and> form (fst (handleDelete w i c s)) = form (handleCancelEdit s)
      \<and> editingProduct (fst (handleDelete w i c s)) = editingProduct (handleCancelEdit s)
      \<and> imageFile (fst (handleDelete w i c s)) = imageFile (handleCancelEdit s))
   \<and> (map_option p_id (editingProduct s) \<noteq> Some i \<longrightarrow>
      form (fst (handleDelete w i c s)) = form s
      \<and> editingProduct (fst (handleDelete w i c s)) = editingProduct s
      \<and> imageFile (fst (handleDelete w i c s)) = imageFile s)
   \<and> (\<not> call_ok w (DeleteProduct i c) \<longrightarrow>
      form (fst (handleDelete w i c s)) = form s
      \<and> editingProduct (fst (handleDelete w i c s)) = editingProduct s
      \<and> imageFile (fst (handleDelete w i c s)) = imageFile s)"
proof (intro conjI impI)
  assume a: "editingProduct s = Some p \<and> p_id p = i \<and> call_ok w (DeleteProduct i c)"
  then have target: "map_option p_id (editingProduct s) = Some i" by simp
  from a target show "form (fst (handleDelete w i c s)) = initialForm"
    and "editingProduct (fst (handleDelete w i c s)) = None"
    and "imageFile (fst (handleDelete w i c s)) = None"
    by (simp_all add: delete_succeeded)
  from a target show "form (fst (handleDelete w i c s)) = form (handleCancelEdit s)"
    and "editingProduct (fst (handleDelete w i c s)) = editingProduct (handleCancelEdit s)"
    and "imageFile (fst (handleDelete w i c s)) = imageFile (handleCancelEdit s)"
    by (simp_all add: delete_succeeded handleCancelEdit_def)
next
  assume other: "map_option p_id (editingProduct s) \<noteq> Some i"
  show "form (fst (handleDelete w i c s)) = form s"
    using other by (cases "call_ok w (DeleteProduct i c)")
      (auto simp: delete_succeeded delete_failed)
  show "editingProduct (fst (handleDelete w i c s)) = editingProduct s"
    using other by (cases "call_ok w (DeleteProduct i c)")
      (auto simp: delete_succeeded delete_failed)
  show "imageFile (fst (handleDelete w i c s)) = imageFile s"
    using other by (cases "call_ok w (DeleteProduct i c)")
      (auto simp: delete_succeeded delete_failed)
next
  assume "\<not> call_ok w (DeleteProduct i c)"
  then show "form (fst (handleDelete w i c s)) = form s"
    and "editingProduct (fst (handleDelete w i c s)) = editingProduct s"
    and "imageFile (fst (handleDelete w i c s)) = imageFile s"
    by (simp_all add: delete_failed)
qed

theorem delete_of_edit_target_resets_draft_witness:
  "form (fst (handleDelete store_up (js ''p1'') (Some (js ''accessories'')) (handleEdit locket fresh))) =
     initialForm
   \<and> editingProduct
       (fst (handleDelete store_up (js ''p1'') (Some (js ''accessories'')) (handleEdit locket fresh))) = None
   \<and> form (fst (handleDelete store_up (js ''p2'') (Some (js ''accessories'')) (handleEdit locket fresh))) =
     form (handleEdit locket fresh)
   \<and> editingProduct
       (fst (handleDelete store_up (js ''p2'') (Some (js ''accessories'')) (handleEdit locket fresh))) =
     Some locket
   \<and> form (fst (handleDelete store_down (js ''p1'') (Some (js ''accessories'')) (handleEdit locket fresh))) =
     form (handleEdit locket fresh)"
proof -
  let ?s = "handleEdit locket fresh"
  have target: "editingProduct ?s = Some locket \<and> p_id locket = js ''p1''
      \<and> call_ok store_up (DeleteProduct (js ''p1'') (Some (js ''accessories'')))"
    by code_simp
  have other: "map_option p_id (editingProduct ?s) \<noteq> Some (js ''p2'')"
    by code_simp
  have refused: "\<not> call_ok store_down (DeleteProduct (js ''p1'') (Some (js ''accessories'')))"
    by code_simp
  have editing: "editingProduct ?s = Some locket"
    by code_simp
  from delete_of_edit_target_resets_draft
         [of ?s locket "js ''p1''" store_up "Some (js ''accessories'')"] target
  have 1: "form (fst (handleDelete store_up (js ''p1'') (Some (js ''accessories'')) ?s)) = initialForm"
    "editingProduct (fst (handleDelete store_up (js ''p1'') (Some (js ''accessories'')) ?s)) = None"
    by blast+
  from delete_of_edit_target_resets_draft
         [of ?s locket "js ''p2''" store_up "Some (js ''accessories'')"] other
  have 2: "form (fst (handleDelete store_up (js ''p2'') (Some (js ''accessories'')) ?s)) = form ?s"
    "editingProduct (fst (handleDelete store_up (js ''p2'') (Some (js ''accessories'')) ?s)) =
       editingProduct ?s"
    by blast+
  from delete_of_edit_target_resets_draft
         [of ?s locket "js ''p1''" store_down "Some (js ''accessories'')"] refused
  have 3: "form (fst (handleDelete store_down (js ''p1'') (Some (js ''accessories'')) ?s)) = form ?s"
    by blast
  from 2(2) have "editingProduct (fst (handleDelete store_up (js ''p2'') (Some (js ''accessories'')) ?s)) =
       Some locket"
    by (simp only: editing)
  with 1 2(1) 3 show ?thesis
    by blast
qed


subsection \<open>The catalog snapshot\<close>

lemma load_snapshot:
  "products (fst (load w s)) = products s
   \<or> fetchAllProducts w = Inr (products (fst (load w s)))"
  by (simp add: load_def split: sum.splits)

lemma uploads_no_fetch [simp]: "FetchAllProducts \<notin> set (snd (snd (resolve_image w s)))"
  by (simp add: resolve_calls split: option.splits)

lemma uploads_no_mutation: "c \<in> set (snd (snd (resolve_image w s))) \<Longrightarrow> \<not> is_mutation c"
  by (auto simp: resolve_calls split: option.splits)

lemma submission_not_fetch [simp]: "submission s P \<noteq> FetchAllProducts"
  by (simp add: submission_def split: option.splits)

lemma submit_mutation_shape:
  assumes "c \<in> set (snd (handleSubmit w s))" "is_mutation c"
  shows "snd (handleSubmit w s) =
           snd (snd (resolve_image w s)) @
           c # (if call_ok w c then [FetchAllProducts] else [])"
    and "\<not> call_ok w c \<Longrightarrow> products (fst (handleSubmit w s)) = products s"
proof -
  from assms have valid: "trim (title (form s)) \<noteq> []" "category (form s) \<noteq> []"
    by (auto simp: submit_calls split: if_splits)
  from assms valid obtain u where u: "fst (resolve_image w s) = Inr u"
    by (cases "fst (resolve_image w s)") (auto simp: submit_calls dest: uploads_no_mutation)
  from assms valid u have c: "c = submission s (buildPayload (form s) u)"
    by (auto simp: submit_calls dest: uploads_no_mutation split: if_splits)
  from valid u show "snd (handleSubmit w s) =
           snd (snd (resolve_image w s)) @
           c # (if call_ok w c then [FetchAllProducts] else [])"
    unfolding c by (simp add: submit_calls)
  assume "\<not> call_ok w c"
  then obtain m where "thrown w (submission s (buildPayload (form s) u)) = Some m"
    unfolding c by (auto simp: call_ok_def)
  with valid u show "products (fst (handleSubmit w s)) = products s"
    by (simp add: submit_mutation_failed(5))
qed

lemma submit_snapshot:
  "products (fst (handleSubmit w s)) = products s
   \<or> (FetchAllProducts \<in> set (snd (handleSubmit w s))
       \<and> fetchAllProducts w = Inr (products (fst (handleSubmit w s))))"
proof (cases "trim (title (form s)) = [] \<or> category (form s) = []")
  case True
  then show ?thesis
    by (cases "trim (title (form s)) = []")
      (simp_all add: submit_title_rejected submit_category_rejected)
next
  case False
  then have valid: "trim (title (form s)) \<noteq> []" "category (form s) \<noteq> []" by auto
  show ?thesis
  proof (cases "fst (resolve_image w s)")
    case (Inl m)
    with valid show ?thesis by (simp add: submit_rejected_image(4))
  next
    case (Inr u)
    show ?thesis
    proof (cases "thrown w (submission s (buildPayload (form s) u))")
      case (Some m)
      with valid Inr show ?thesis by (simp add: submit_mutation_failed(5))
    next
      case None
      with valid Inr have "products (fst (handleSubmit w s)) =
          (case fetchAllProducts w of Inr data \<Rightarrow> data | Inl err \<Rightarrow> products s)"
        by (simp add: submit_succeeded(5))
      moreover from valid Inr None have "FetchAllProducts \<in> set (snd (handleSubmit w s))"
        by (simp add: submit_calls call_ok_def)
      ultimately show ?thesis
        by (cases "fetchAllProducts w") auto
    qed
  qed
qed

lemma submit_fetch_count: "count_list (snd (handleSubmit w s)) FetchAllProducts \<le> 1"
  by (simp add: submit_calls resolve_calls submission_def split: sum.splits option.splits)

lemma delete_snapshot:
  "products (fst (handleDelete w i c s)) = products s
   \<or> (FetchAllProducts \<in> set (snd (handleDelete w i c s))
       \<and> fetchAllProducts w = Inr (products (fst (handleDelete w i c s))))"
proof (cases "call_ok w (DeleteProduct i c)")
  case True
  then show ?thesis
    by (cases "fetchAllProducts w") (simp_all add: delete_succeeded(4) delete_calls)
next
  case False
  then show ?thesis by (simp add: delete_failed(4))
qed

lemma login_snapshot:
  "products (fst (handleLogin w s)) = products s
   \<or> (FetchAllProducts \<in> set (snd (handleLogin w s))
       \<and> fetchAllProducts w = Inr (products (fst (handleLogin w s))))"
  by (simp add: handleLogin_def load_def split: sum.splits)

lemma mount_snapshot:
  "products (fst (mount w s)) = products s
   \<or> (FetchAllProducts \<in> set (snd (mount w s))
       \<and> fetchAllProducts w = Inr (products (fst (mount w s))))"
  by (simp add: mount_def load_def split: sum.splits)

lemma step_snapshot:
  "products (fst (step w e s)) = products s
   \<or> (FetchAllProducts \<in> set (snd (step w e s))
       \<and> fetchAllProducts w = Inr (products (fst (step w e s))))"
proof (cases e)
  case Mount
  then show ?thesis using mount_snapshot [of w s] by simp
next
  case Login
  then show ?thesis using login_snapshot [of w s] by simp
next
  case Submit
  then show ?thesis using submit_snapshot [of w s] by simp
next
  case (Delete i c)
  then show ?thesis using delete_snapshot [of w i c s] by simp
qed (simp_all add: handleChange_def category_onChange_def file_onChange_def
      imageUrl_onChange_def handleEdit_def handleCancelEdit_def Let_def split: option.splits)

lemma step_mutation:
  assumes "c \<in> set (snd (step w e s))" "is_mutation c"
  shows "\<exists>pre. FetchAllProducts \<notin> set pre
           \<and> snd (step w e s) = pre @ c # (if call_ok w c then [FetchAllProducts] else [])"
    and "\<not> call_ok w c \<Longrightarrow> products (fst (step w e s)) = products s"
proof -
  have "(\<exists>pre. FetchAllProducts \<notin> set pre
           \<and> snd (step w e s) = pre @ c # (if call_ok w c then [FetchAllProducts] else []))
        \<and> (\<not> call_ok w c \<longrightarrow> products (fst (step w e s)) = products s)"
  proof (cases e)
    case Submit
    with assms have c: "c \<in> set (snd (handleSubmit w s))" by simp
    from submit_mutation_shape(1) [OF c assms(2)] uploads_no_fetch [of w s]
    have "\<exists>pre. FetchAllProducts \<notin> set pre
           \<and> snd (handleSubmit w s) = pre @ c # (if call_ok w c then [FetchAllProducts] else [])"
      by blast
    with submit_mutation_shape(2) [OF c assms(2)] Submit show ?thesis by simp
  next
    case (Delete i k)
    with assms have c: "c = DeleteProduct i k"
      by (auto simp: delete_calls split: if_splits)
    have "snd (handleDelete w i k s) =
        [] @ c # (if call_ok w c then [FetchAllProducts] else [])"
      unfolding c by (simp add: delete_calls)
    then have "\<exists>pre. FetchAllProducts \<notin> set pre
           \<and> snd (handleDelete w i k s) =
               pre @ c # (if call_ok w c then [FetchAllProducts] else [])"
      by (intro exI [of _ "[]"]) simp
    with Delete c show ?thesis by (simp add: delete_failed(4))
  next
    case Mount
    with assms show ?thesis by (auto simp: mount_def split: if_splits)
  next
    case Login
    with assms show ?thesis by (auto simp: handleLogin_def split: if_splits)
  qed (use assms in simp_all)
  then show "\<exists>pre. FetchAllProducts \<notin> set pre
           \<and> snd (step w e s) = pre @ c # (if call_ok w c then [FetchAllProducts] else [])"
    and "\<not> call_ok w c \<Longrightarrow> products (fst (step w e s)) = products s"
    by blast+
qed

lemma step_fetch_count: "count_list (snd (step w e s)) FetchAllProducts \<le> 1"
  using submit_fetch_count [of w s]
  by (cases e) (simp_all add: delete_calls mount_def handleLogin_def)

text \<open>
  Claim C4. Whatever the event, the snapshot after it is the snapshot before it or the
  answer of a \<open>fetchAllProducts\<close> the handler issued: no handler assigns anything else.
  Every create, update or delete a handler issues is followed by exactly one reload when
  it returns, and is the handler's last call, with the snapshot unchanged, when it throws;
  no reload precedes it, and no handler reloads twice.
\<close>

theorem snapshot_replaced_only_by_reload:
  "(products (fst (step w e s)) = products s
      \<or> (FetchAllProducts \<in> set (snd (step w e s))
          \<and> fetchAllProducts w = Inr (products (fst (step w e s)))))
   \<and> (\<forall>c \<in> set (snd (step w e s)). is_mutation c \<longrightarrow>
        (\<exists>pre. FetchAllProducts \<notin> set pre
           \<and> snd (step w e s) = pre @ c # (if call_ok w c then [FetchAllProducts] else []))
        \<and> (\<not> call_ok w c \<longrightarrow> products (fst (step w e s)) = products s))
   \<and> count_list (snd (step w e s)) FetchAllProducts \<le> 1"
  using step_snapshot [of w e s] step_fetch_count [of w e s]
  by (blast intro: step_mutation)


theorem snapshot_replaced_only_by_reload_witness:
  "CreateProduct
     [(''title'', JStr (js ''Ring'')), (''description'', JStr []), (''price'', JStr (js ''500'')),
      (''originalPrice'', JStr (js ''500'')), (''category'', JStr (js ''accessories'')),
      (''imageUrl'', JStr (js ''https://img.example/ring.png''))]
     \<in> set (snd (step store_down Submit ring_draft))
   \<and> products (fst (step store_down Submit ring_draft)) = products ring_draft
   \<and> (\<exists>pre. FetchAllProducts \<notin> set pre
         \<and> snd (step store_up Submit ring_draft) =
             pre @ [CreateProduct
               [(''title'', JStr (js ''Ring'')), (''description'', JStr []),
                (''price'', JStr (js ''500'')), (''originalPrice'', JStr (js ''500'')),
                (''category'', JStr (js ''accessories'')),
                (''imageUrl'', JStr (js ''https://img.example/ring.png''))],
              FetchAllProducts])
   \<and> products (fst (step store_down (Delete (js ''p1'') None) ring_draft)) = products ring_draft"
proof -
  let ?c = "CreateProduct
     [(''title'', JStr (js ''Ring'')), (''description'', JStr []), (''price'', JStr (js ''500'')),
      (''originalPrice'', JStr (js ''500'')), (''category'', JStr (js ''accessories'')),
      (''imageUrl'', JStr (js ''https://img.example/ring.png''))]"
  have refused: "?c \<in> set (snd (step store_down Submit ring_draft))"
    "is_mutation ?c" "\<not> call_ok store_down ?c"
    by code_simp+
  have accepted: "?c \<in> set (snd (step store_up Submit ring_draft))" "call_ok store_up ?c"
    by code_simp+
  have deleted: "DeleteProduct (js ''p1'') None \<in> set (snd (step store_down (Delete (js ''p1'') None) ring_draft))"
    "is_mutation (DeleteProduct (js ''p1'') None)"
    "\<not> call_ok store_down (DeleteProduct (js ''p1'') None)"
    by code_simp+
  from snapshot_replaced_only_by_reload [of store_down Submit ring_draft] refused
  have 1: "products (fst (step store_down Submit ring_draft)) = products ring_draft"
    by blast
  from snapshot_replaced_only_by_reload [of store_up Submit ring_draft] accepted(1) refused(2)
  have "\<exists>pre. FetchAllProducts \<notin> set pre
         \<and> snd (step store_up Submit ring_draft) =
             pre @ ?c # (if call_ok store_up ?c then [FetchAllProducts] else [])"
    by blast
  then have 2: "\<exists>pre. FetchAllProducts \<notin> set pre
         \<and> snd (step store_up Submit ring_draft) = pre @ [?c, FetchAllProducts]"
    unfolding if_P [OF accepted(2)] .
  from snapshot_replaced_only_by_reload [of store_down "Delete (js ''p1'') None" ring_draft] deleted
  have 3: "products (fst (step store_down (Delete (js ''p1'') None) ring_draft)) = products ring_draft"
    by blast
  from refused(1) 1 2 3 show ?thesis
    by blast
qed


subsection \<open>Category change\<close>

text \<open>
  Claim C8. Whatever the draft holds, the \<open>onChange\<close> of the category control leaves the
  draft with the chosen category and an empty subcategory: the subcategory chosen before
  is not carried over.
\<close>

theorem category_change_clears_subcategory:
  "subcategory (form (category_onChange v s)) = []
   \<and> category (form (category_onChange v s)) = v"
  by (simp add: category_onChange_def handleChange_def Let_def)

end
